theory Spec2Isabelle
  imports Complex_Main "HOL-Library.Sublist" "HOL-Library.AList"
begin

section \<open>JavaScript values and the built-ins the server calls\<close>

text \<open>
  Strings are lists of 8-bit characters (code units below 256). A number is its exact
  decimal value, or one of the three non-finite numbers; rounding to binary64, overflow
  to infinity and the sign of zero are not modelled. An object is an association list
  with distinct keys, in insertion order (JavaScript lists integer-like keys first; no
  property of this theory depends on the order of keys).
\<close>

datatype js_number = Num rat | NaN | PosInfinity | NegInfinity

datatype js_value =
    JUndefined
  | JNull
  | JBool bool
  | JNumber js_number
  | JString string
  | JArray "js_value list"
  | JObject "(string \<times> js_value) list"

type_synonym js_object = "(string \<times> js_value) list"

text \<open>An exception object: \<open>new Error(message)\<close>, or a failure raised by a client library.\<close>

datatype js_error = Error (error_message: string)

text \<open>\<open>process.env\<close>: a variable is absent or holds a string.\<close>

type_synonym env = "string \<Rightarrow> string option"

text \<open>\<open>!x\<close> for an environment variable: absent or the empty string.\<close>

definition unset :: "string option \<Rightarrow> bool" where
  "unset x = (case x of None \<Rightarrow> True | Some s \<Rightarrow> s = [])"

text \<open>\<open>String.prototype.includes\<close>: \<open>p\<close> occurs in \<open>s\<close> as a contiguous run, compared
  character by character (case-sensitive).\<close>

fun str_includes :: "string \<Rightarrow> string \<Rightarrow> bool" where
  "str_includes [] p = (p = [])"
| "str_includes (c # cs) p = (prefix p (c # cs) \<or> str_includes cs p)"

text \<open>Truthiness of a value (\<open>if (v)\<close>, \<open>v || d\<close>, \<open>v && w\<close>).\<close>

fun truthy :: "js_value \<Rightarrow> bool" where
  "truthy JUndefined = False"
| "truthy JNull = False"
| "truthy (JBool b) = b"
| "truthy (JNumber n) = (n \<noteq> Num 0 \<and> n \<noteq> NaN)"
| "truthy (JString s) = (s \<noteq> [])"
| "truthy (JArray xs) = True"
| "truthy (JObject kvs) = True"

text \<open>Reading a property of an object: \<open>undefined\<close> when the key is absent.\<close>

fun get_property :: "js_value \<Rightarrow> string \<Rightarrow> js_value" where
  "get_property (JObject kvs) k = (case map_of kvs k of Some v \<Rightarrow> v | None \<Rightarrow> JUndefined)"
| "get_property v k = JUndefined"

text \<open>
  The assignment \<open>obj[k] = v\<close> on an object created by \<open>{}\<close>, for a string or a number
  \<open>v\<close>: an existing key keeps its place and takes the new value, a new key goes last.
  The key \<open>__proto__\<close> reaches the inherited setter, which ignores such a value.
\<close>

definition set_property :: "js_object \<Rightarrow> string \<Rightarrow> js_value \<Rightarrow> js_object" where
  "set_property obj k v = (if k = ''__proto__'' then obj else AList.update k v obj)"

subsection \<open>Numeric strings: \<open>isNaN\<close> and \<open>parseFloat\<close>\<close>

definition is_digit :: "char \<Rightarrow> bool" where
  "is_digit c = (c \<in> set ''0123456789'')"

definition is_whitespace :: "char \<Rightarrow> bool" where
  "is_whitespace c = (of_char c \<in> {9, 10, 11, 12, 13, 32, 160 :: nat})"

definition digit_value :: "char \<Rightarrow> nat" where
  "digit_value c =
     (if is_digit c then of_char c - 48
      else if c \<in> set ''abcdef'' then of_char c - 87
      else of_char c - 55)"

definition radix_value :: "nat \<Rightarrow> string \<Rightarrow> nat" where
  "radix_value b ds = foldl (\<lambda>n c. b * n + digit_value c) 0 ds"

definition scale :: "rat \<Rightarrow> int \<Rightarrow> rat" where
  "scale m e = (if e < 0 then m / 10 ^ nat (- e) else m * 10 ^ nat e)"

definition negate :: "js_number \<Rightarrow> js_number" where
  "negate n = (case n of Num q \<Rightarrow> Num (- q) | NaN \<Rightarrow> NaN
                 | PosInfinity \<Rightarrow> NegInfinity | NegInfinity \<Rightarrow> PosInfinity)"

text \<open>ExponentPart: \<open>e\<close> or \<open>E\<close>, an optional sign, and at least one digit.\<close>

definition scan_exponent :: "string \<Rightarrow> (int \<times> string) option" where
  "scan_exponent s =
     (case s of
        [] \<Rightarrow> None
      | c # r \<Rightarrow>
          if c = CHR ''e'' \<or> c = CHR ''E'' then
            (let neg = (case r of [] \<Rightarrow> False | d # t \<Rightarrow> d = CHR ''-'');
                 r' = (case r of [] \<Rightarrow> r
                        | d # t \<Rightarrow> if d = CHR ''-'' \<or> d = CHR ''+'' then t else r);
                 ds = takeWhile is_digit r'
             in if ds = [] then None
                else Some (if neg then - int (radix_value 10 ds) else int (radix_value 10 ds),
                           dropWhile is_digit r'))
          else None)"

text \<open>
  The longest prefix that is a StrUnsignedDecimalLiteral (\<open>Infinity\<close>, \<open>12\<close>, \<open>12.\<close>,
  \<open>12.5\<close>, \<open>.5\<close>, each number with an optional exponent), its value and the rest.
\<close>

definition scan_unsigned :: "string \<Rightarrow> (js_number \<times> string) option" where
  "scan_unsigned s =
     (if prefix ''Infinity'' s then Some (PosInfinity, drop 8 s)
      else
        let ip = takeWhile is_digit s;
            r1 = dropWhile is_digit s;
            dot = (case r1 of [] \<Rightarrow> False | c # t \<Rightarrow> c = CHR ''.'');
            fp = (if dot then takeWhile is_digit (tl r1) else []);
            r2 = (if dot then dropWhile is_digit (tl r1) else r1);
            m = of_nat (radix_value 10 ip) + of_nat (radix_value 10 fp) / 10 ^ length fp
        in if ip = [] \<and> fp = [] then None
           else (case scan_exponent r2 of
                   Some (e, r3) \<Rightarrow> Some (Num (scale m e), r3)
                 | None \<Rightarrow> Some (Num m, r2)))"

text \<open>The longest prefix that is a StrDecimalLiteral: an optional sign first.\<close>

definition scan_decimal :: "string \<Rightarrow> (js_number \<times> string) option" where
  "scan_decimal s =
     (case s of
        [] \<Rightarrow> None
      | c # r \<Rightarrow>
          if c = CHR ''-'' then map_option (\<lambda>(v, t). (negate v, t)) (scan_unsigned r)
          else if c = CHR ''+'' then scan_unsigned r
          else scan_unsigned s)"

text \<open>\<open>0x\<close>, \<open>0o\<close> and \<open>0b\<close> literals, which take no sign.\<close>

definition non_decimal :: "string \<Rightarrow> js_number option" where
  "non_decimal t =
     (case t of
        a # b # ds \<Rightarrow>
          if a = CHR ''0'' \<and> ds \<noteq> [] then
            (if b \<in> set ''xX'' \<and> list_all (\<lambda>c. c \<in> set ''0123456789abcdefABCDEF'') ds
               then Some (Num (of_nat (radix_value 16 ds)))
             else if b \<in> set ''oO'' \<and> list_all (\<lambda>c. c \<in> set ''01234567'') ds
               then Some (Num (of_nat (radix_value 8 ds)))
             else if b \<in> set ''bB'' \<and> list_all (\<lambda>c. c \<in> set ''01'') ds
               then Some (Num (of_nat (radix_value 2 ds)))
             else None)
          else None
      | _ \<Rightarrow> None)"

definition trim :: "string \<Rightarrow> string" where
  "trim s = rev (dropWhile is_whitespace (rev (dropWhile is_whitespace s)))"

text \<open>\<open>Number(s)\<close> for a string: the whole trimmed string must be a numeric literal;
  the empty string is 0.\<close>

definition StringToNumber :: "string \<Rightarrow> js_number" where
  "StringToNumber s =
     (let t = trim s in
      if t = [] then Num 0
      else (case non_decimal t of
              Some v \<Rightarrow> v
            | None \<Rightarrow> (case scan_decimal t of
                          Some (v, []) \<Rightarrow> v
                        | _ \<Rightarrow> NaN)))"

text \<open>\<open>isNaN(s)\<close> converts its argument with \<open>Number\<close> first.\<close>

definition isNaN :: "string \<Rightarrow> bool" where
  "isNaN s = (StringToNumber s = NaN)"

text \<open>\<open>parseFloat(s)\<close>: leading whitespace is skipped, then the longest decimal prefix
  is the value; \<open>NaN\<close> when there is none.\<close>

definition parseFloat :: "string \<Rightarrow> js_number" where
  "parseFloat s =
     (case scan_decimal (dropWhile is_whitespace s) of
        Some (v, r) \<Rightarrow> v
      | None \<Rightarrow> NaN)"

section \<open>The Analytics Query Executor: \<open>server/ga4.js\<close>\<close>

subsection \<open>The client handle\<close>

datatype google_auth = KeyFilename string | Credentials js_value

datatype analytics_client = BetaAnalyticsDataClient google_auth

subsection \<open>The request and the response of \<open>runReport\<close>\<close>

text \<open>The parameter object of \<open>queryGA4\<close>, typed as its documentation types it; \<open>None\<close>
  is a field left out (\<open>undefined\<close>), which the destructuring replaces by its default.\<close>

record query_params =
  dimensions :: "string list option"
  metrics :: "string list option"
  startDate :: "string option"
  endDate :: "string option"
  limit :: "int option"
  dimensionFilter :: "js_value option"
  orderBys :: "js_value list option"

record date_range =
  range_startDate :: string
  range_endDate :: string

text \<open>\<open>request_dimensions\<close> and \<open>request_metrics\<close> hold the names \<open>d\<close> of the entries
  \<open>{ name: d }\<close>; \<open>request_dimensionFilter\<close> is \<open>None\<close> when the key is not set.\<close>

record report_request =
  property :: string
  dateRanges :: "date_range list"
  request_dimensions :: "string list"
  request_metrics :: "string list"
  request_limit :: int
  request_dimensionFilter :: "js_value option"
  request_orderBys :: "js_value list"

text \<open>An entry of \<open>dimensionValues\<close> or \<open>metricValues\<close>: an object with a string \<open>value\<close>.\<close>

datatype report_value = ReportValue (value_of: string)

record report_row =
  dimensionValues :: "report_value list"
  metricValues :: "report_value list"

record report_response =
  rows :: "report_row list option"
  totals :: "report_row list option"
  rowCount :: "int option"

record result_metadata =
  meta_rowCount :: int
  meta_dimensions :: "string list"
  meta_metrics :: "string list"
  meta_dateRange :: date_range
  meta_propertyId :: string

record analytics_result =
  result_rows :: "js_object list"
  result_totals :: js_object
  metadata :: result_metadata

text \<open>The state the module touches: its cached client (\<open>let analyticsClient = null\<close>) and,
  to make the network effect visible, the requests sent to the reporting API so far.\<close>

record ga4_state =
  analyticsClient :: "analytics_client option"
  outbound :: "report_request list"

subsection \<open>\<open>getClient\<close>\<close>

text \<open>\<open>server/ga4.js\<close>, lines 9 to 26.\<close>

definition getClient :: "env \<Rightarrow> ga4_state \<Rightarrow> (js_error + analytics_client) \<times> ga4_state" where
  "getClient env st =
     (case analyticsClient st of
        Some c \<Rightarrow> (Inr c, st)
      | None \<Rightarrow>
          (let credentialsPath = env ''GOOGLE_APPLICATION_CREDENTIALS'' in
           if unset credentialsPath
           then (Inl (Error ''GOOGLE_APPLICATION_CREDENTIALS environment variable not set''), st)
           else (let c = BetaAnalyticsDataClient (KeyFilename (the credentialsPath))
                 in (Inr c, st\<lparr>analyticsClient := Some c\<rparr>))))"

text \<open>The second copy of the module (the unnamed source file) tries the inline
  credentials of \<open>GA_CREDENTIALS_JSON\<close> first; \<open>JSON_parse\<close> is the runtime's
  \<open>JSON.parse\<close>.\<close>

definition getClient_inline ::
  "(string \<Rightarrow> js_error + js_value) \<Rightarrow> env \<Rightarrow> ga4_state
     \<Rightarrow> (js_error + analytics_client) \<times> ga4_state" where
  "getClient_inline JSON_parse env st =
     (case analyticsClient st of
        Some c \<Rightarrow> (Inr c, st)
      | None \<Rightarrow>
          (let credentialsJson = env ''GA_CREDENTIALS_JSON'' in
           if \<not> unset credentialsJson then
             (case JSON_parse (the credentialsJson) of
                Inl err \<Rightarrow> (Inl (Error ''Invalid GA_CREDENTIALS_JSON format''), st)
              | Inr credentials \<Rightarrow>
                  (let c = BetaAnalyticsDataClient (Credentials credentials)
                   in (Inr c, st\<lparr>analyticsClient := Some c\<rparr>)))
           else
             (let credentialsPath = env ''GOOGLE_APPLICATION_CREDENTIALS'' in
              if unset credentialsPath
              then (Inl (Error ''Neither GA_CREDENTIALS_JSON nor GOOGLE_APPLICATION_CREDENTIALS is set''), st)
              else (let c = BetaAnalyticsDataClient (KeyFilename (the credentialsPath))
                    in (Inr c, st\<lparr>analyticsClient := Some c\<rparr>)))))"

subsection \<open>\<open>queryGA4\<close>\<close>

text \<open>The destructuring defaults, lines 48 to 56.\<close>

definition dimensions_of :: "query_params \<Rightarrow> string list" where
  "dimensions_of params = (case dimensions params of None \<Rightarrow> [''date''] | Some d \<Rightarrow> d)"

definition metrics_of :: "query_params \<Rightarrow> string list" where
  "metrics_of params =
     (case metrics params of None \<Rightarrow> [''totalUsers'', ''sessions''] | Some m \<Rightarrow> m)"

definition startDate_of :: "query_params \<Rightarrow> string" where
  "startDate_of params = (case startDate params of None \<Rightarrow> ''7daysAgo'' | Some s \<Rightarrow> s)"

definition endDate_of :: "query_params \<Rightarrow> string" where
  "endDate_of params = (case endDate params of None \<Rightarrow> ''yesterday'' | Some s \<Rightarrow> s)"

definition limit_of :: "query_params \<Rightarrow> int" where
  "limit_of params = (case limit params of None \<Rightarrow> 100 | Some n \<Rightarrow> n)"

definition dimensionFilter_of :: "query_params \<Rightarrow> js_value" where
  "dimensionFilter_of params = (case dimensionFilter params of None \<Rightarrow> JNull | Some f \<Rightarrow> f)"

text \<open>\<open>metrics[0]\<close>: \<open>undefined\<close> on an empty array.\<close>

definition first_metric :: "string list \<Rightarrow> js_value" where
  "first_metric ms = (case ms of [] \<Rightarrow> JUndefined | m # _ \<Rightarrow> JString m)"

text \<open>The request, lines 58 to 83. An \<open>orderBys\<close> that is left out (so \<open>null\<close>) or empty
  gives way to the ordering by the first metric, descending.\<close>

definition build_request :: "string \<Rightarrow> query_params \<Rightarrow> report_request" where
  "build_request propertyId params =
     \<lparr> property = ''properties/'' @ propertyId,
       dateRanges = [\<lparr> range_startDate = startDate_of params,
                       range_endDate = endDate_of params \<rparr>],
       request_dimensions = dimensions_of params,
       request_metrics = metrics_of params,
       request_limit = limit_of params,
       request_dimensionFilter =
         (if truthy (dimensionFilter_of params) then Some (dimensionFilter_of params) else None),
       request_orderBys =
         (case orderBys params of
            Some (ob # obs) \<Rightarrow> ob # obs
          | _ \<Rightarrow> [JObject [(''metric'', JObject [(''metricName'', first_metric (metrics_of params))]),
                            (''desc'', JBool True)]]) \<rparr>"

text \<open>\<open>values[i]?.value || d\<close>: the default stands in for a missing entry and for an
  empty string.\<close>

definition value_or :: "report_value list \<Rightarrow> nat \<Rightarrow> string \<Rightarrow> string" where
  "value_or vs i d =
     (if i < length vs \<and> value_of (vs ! i) \<noteq> [] then value_of (vs ! i) else d)"

text \<open>\<open>isNaN(val) ? val : parseFloat(val)\<close>, lines 97 and 107.\<close>

definition metric_value :: "string \<Rightarrow> js_value" where
  "metric_value v = (if isNaN v then JString v else JNumber (parseFloat v))"

text \<open>The two \<open>forEach\<close> loops of lines 91 to 98, with their running index.\<close>

fun forEach_dimensions :: "string list \<Rightarrow> nat \<Rightarrow> report_value list \<Rightarrow> js_object \<Rightarrow> js_object" where
  "forEach_dimensions [] i dvs parsed = parsed"
| "forEach_dimensions (d # ds) i dvs parsed =
     forEach_dimensions ds (Suc i) dvs (set_property parsed d (JString (value_or dvs i [])))"

fun forEach_metrics :: "string list \<Rightarrow> nat \<Rightarrow> report_value list \<Rightarrow> js_object \<Rightarrow> js_object" where
  "forEach_metrics [] i mvs parsed = parsed"
| "forEach_metrics (met # ms) i mvs parsed =
     forEach_metrics ms (Suc i) mvs (set_property parsed met (metric_value (value_or mvs i ''0'')))"

definition parse_row :: "string list \<Rightarrow> string list \<Rightarrow> report_row \<Rightarrow> js_object" where
  "parse_row dims mets row =
     forEach_metrics mets 0 (metricValues row)
       (forEach_dimensions dims 0 (dimensionValues row) [])"

text \<open>Lines 102 to 109: the totals come from the first totals row, when there is one.\<close>

definition parse_totals :: "string list \<Rightarrow> report_row list option \<Rightarrow> js_object" where
  "parse_totals mets ts =
     (case ts of
        Some (t # _) \<Rightarrow> forEach_metrics mets 0 (metricValues t) []
      | _ \<Rightarrow> [])"

text \<open>\<open>response.rows || []\<close>.\<close>

definition rows_or_empty :: "report_response \<Rightarrow> report_row list" where
  "rows_or_empty response = (case rows response of None \<Rightarrow> [] | Some rs \<Rightarrow> rs)"

text \<open>Lines 89 to 121.\<close>

definition parse_response :: "string \<Rightarrow> query_params \<Rightarrow> report_response \<Rightarrow> analytics_result" where
  "parse_response propertyId params response =
     (let parsed_rows = map (parse_row (dimensions_of params) (metrics_of params))
                          (rows_or_empty response)
      in \<lparr> result_rows = parsed_rows,
           result_totals = parse_totals (metrics_of params) (totals response),
           metadata =
             \<lparr> meta_rowCount =
                 (case rowCount response of
                    None \<Rightarrow> int (length parsed_rows)
                  | Some n \<Rightarrow> if n = 0 then int (length parsed_rows) else n),
               meta_dimensions = dimensions_of params,
               meta_metrics = metrics_of params,
               meta_dateRange = \<lparr> range_startDate = startDate_of params,
                                  range_endDate = endDate_of params \<rparr>,
               meta_propertyId = propertyId \<rparr> \<rparr>)"

text \<open>The \<open>catch\<close> block, lines 122 to 136: what \<open>queryGA4\<close> throws for a failure \<open>err\<close>
  of the remote call.\<close>

definition classify_failure :: "string \<Rightarrow> js_error \<Rightarrow> js_error" where
  "classify_failure propertyId err =
     (if str_includes (error_message err) ''permission''
        then Error ''Permission denied. Check service account access in GA4.''
      else if str_includes (error_message err) ''not found''
        then Error (''Property '' @ propertyId @ '' not found. Check your GA4_PROPERTY_ID.'')
      else err)"

text \<open>
  \<open>queryGA4\<close>, lines 40 to 137. \<open>client_of\<close> is the module's \<open>getClient\<close> (the two copies
  of the module differ only there and in what they log), \<open>runReport\<close> the behaviour of
  the reporting API for a client and a request.
\<close>

definition queryGA4 ::
  "(ga4_state \<Rightarrow> (js_error + analytics_client) \<times> ga4_state) \<Rightarrow> env
     \<Rightarrow> (analytics_client \<Rightarrow> report_request \<Rightarrow> js_error + report_response)
     \<Rightarrow> query_params \<Rightarrow> ga4_state \<Rightarrow> (js_error + analytics_result) \<times> ga4_state" where
  "queryGA4 client_of env runReport params st =
     (case client_of st of
        (Inl e, st1) \<Rightarrow> (Inl e, st1)
      | (Inr client, st1) \<Rightarrow>
          (let propertyId = env ''GA4_PROPERTY_ID'' in
           if unset propertyId
           then (Inl (Error ''GA4_PROPERTY_ID environment variable not set''), st1)
           else
             (let request = build_request (the propertyId) params;
                  st2 = st1\<lparr>outbound := outbound st1 @ [request]\<rparr>
              in (case runReport client request of
                    Inr response \<Rightarrow> (Inr (parse_response (the propertyId) params response), st2)
                  | Inl err \<Rightarrow> (Inl (classify_failure (the propertyId) err), st2)))))"

section \<open>The Query Interpreter and the Response Formatter: \<open>server/groq.js\<close> and its
  Gemini twin\<close>

subsection \<open>The two instruction prompts\<close>

text \<open>Both modules carry the same two template strings, line breaks included.\<close>

definition SYSTEM_PROMPT :: string where
  \<open>SYSTEM_PROMPT = ''You are a Google Analytics 4 data analyst assistant for a team. Your job is to interpret natural language questions about website analytics and convert them into GA4 API query parameters.

AVAILABLE GA4 DIMENSIONS:
- date, dateHour, dateHourMinute
- country, city, region, continent
- deviceCategory, browser, operatingSystem, platform
- pagePath, pageTitle, landingPage, landingPagePlusQueryString
- source, medium, sessionDefaultChannelGroup, campaignName
- newVsReturning, userAgeBracket, userGender
- eventName, isConversionEvent

AVAILABLE GA4 METRICS:
- totalUsers, newUsers, activeUsers, active1DayUsers, active7DayUsers, active28DayUsers
- sessions, sessionsPerUser, engagedSessions, engagementRate
- screenPageViews, screenPageViewsPerSession, screenPageViewsPerUser
- bounceRate, averageSessionDuration, userEngagementDuration
- eventCount, eventsPerSession, conversions
- totalRevenue, transactions

DATE FORMATS:
- Specific dates: "YYYY-MM-DD" (e.g., "2026-01-15")
- Relative dates: "today", "yesterday", "NdaysAgo" (e.g., "7daysAgo", "30daysAgo")

RULES:
1. Always respond with valid JSON
2. Choose appropriate dimensions and metrics based on the question
3. Use sensible date ranges (default: last 7 days)
4. Set reasonable limits (default: 20, max: 100)
5. If the question cannot be answered with GA4 data, respond with:
   {"type": "text", "content": "your explanation here"}
6. For ambiguous questions, make reasonable assumptions and note them

RESPONSE FORMAT for GA4 queries:
{
  "type": "ga4_query",
  "dimensions": ["dimension1", "dimension2"],
  "metrics": ["metric1", "metric2"],
  "startDate": "7daysAgo",
  "endDate": "yesterday",
  "limit": 20,
  "orderBys": [{"metric": {"metricName": "metricName"}, "desc": true}]
}

RESPONSE FORMAT for non-GA4 questions:
{
  "type": "text",
  "content": "Your helpful response here"
}''\<close>

definition FORMAT_SYSTEM_PROMPT :: string where
  \<open>FORMAT_SYSTEM_PROMPT = ''You are a data analyst presenting Google Analytics insights to a team.
Format your responses using markdown for readability:
- Use tables for tabular data
- Use bullet points for key insights
- Bold important numbers and trends
- Include percentage changes where relevant
- Suggest 2-3 follow-up questions at the end
- Be concise but insightful
- Format numbers with commas (e.g., 1,234)
- Format percentages to 1 decimal place
- Format durations in human-readable format (e.g., "2m 34s" instead of 154.23)
- If bounce rate or engagement rate is a decimal (0.45), convert to percentage (45.0%)
Keep the tone professional but friendly.''\<close>

subsection \<open>History and requests\<close>

record chat_message =
  role :: string
  content :: string

text \<open>\<open>history.slice(-n)\<close>: the last \<open>n\<close> entries, all of them when there are fewer.\<close>

definition slice_last :: "nat \<Rightarrow> 'a list \<Rightarrow> 'a list" where
  "slice_last n xs = drop (length xs - n) xs"

record groq_request =
  model :: string
  messages :: "chat_message list"
  temperature :: rat
  max_tokens :: nat

text \<open>A completion: \<open>choices[i].message.content\<close>, where the message and its content may
  be missing.\<close>

record groq_choice =
  choice_message :: "string option option"

record groq_response =
  choices :: "groq_choice list"

datatype groq_client = Groq (apiKey: string)

text \<open>The state of the Groq module: its cached client (\<open>let client = null\<close>) and the
  completion requests sent so far.\<close>

record groq_state =
  groq_handle :: "groq_client option"
  groq_sent :: "groq_request list"

record gemini_part =
  part_text :: string

record gemini_content =
  content_role :: string
  parts :: "gemini_part list"

record gemini_config =
  systemInstruction :: string
  maxOutputTokens :: nat

record gemini_request =
  gemini_model :: string
  contents :: "gemini_content list"
  config :: gemini_config

text \<open>\<open>response.text\<close>, which may be missing.\<close>

record gemini_response =
  response_text :: "string option"

datatype gemini_client = GoogleGenAI (gemini_apiKey: string)

record gemini_state =
  gemini_handle :: "gemini_client option"
  gemini_sent :: "gemini_request list"

subsection \<open>What \<open>processQuery\<close> returns\<close>

text \<open>The object \<open>{ type: "text", content: text }\<close>.\<close>

definition text_result :: "string \<Rightarrow> js_value" where
  "text_result t = JObject [(''type'', JString ''text''), (''content'', JString t)]"

text \<open>The object \<open>{ error: msg }\<close>.\<close>

definition error_result :: "string \<Rightarrow> js_value" where
  "error_result msg = JObject [(''error'', JString msg)]"

text \<open>
  \<open>text.match(/\{[\s\S]*\}/)\<close> and its \<open>[0]\<close>: the leftmost match starts at the first
  opening brace, and the greedy star runs to the last closing brace of the text; there
  is no match when no closing brace follows the first opening brace.
\<close>

definition brace_match :: "string \<Rightarrow> string option" where
  "brace_match t =
     (let from_open = dropWhile (\<lambda>c. c \<noteq> CHR ''{'') t in
      if CHR ''}'' \<in> set from_open
      then Some (rev (dropWhile (\<lambda>c. c \<noteq> CHR ''}'') (rev from_open)))
      else None)"

text \<open>The inner \<open>try\<close> of \<open>processQuery\<close> (\<open>groq.js\<close> lines 108 to 119, the same in the
  Gemini module); \<open>JSON_parse\<close> is the runtime's \<open>JSON.parse\<close>, which returns a value or
  throws.\<close>

definition parse_model_output :: "(string \<Rightarrow> js_error + js_value) \<Rightarrow> string \<Rightarrow> js_value" where
  "parse_model_output JSON_parse t =
     (case brace_match t of
        None \<Rightarrow> text_result t
      | Some jsonMatch \<Rightarrow>
          (case JSON_parse jsonMatch of
             Inr parsed \<Rightarrow> parsed
           | Inl parseErr \<Rightarrow> text_result t))"

subsection \<open>\<open>processQuery\<close> of \<open>server/groq.js\<close>\<close>

text \<open>
  Lines 5 to 9. \<open>new_Groq\<close> is the constructor of the SDK, applied to the value of
  \<open>GROQ_API_KEY\<close>: it returns a client or throws (it throws when the key is missing).
  When it throws, nothing is cached.
\<close>

definition groq_getClient ::
  "(string option \<Rightarrow> js_error + groq_client) \<Rightarrow> env \<Rightarrow> groq_state
     \<Rightarrow> (js_error + groq_client) \<times> groq_state" where
  "groq_getClient new_Groq env st =
     (case groq_handle st of
        Some c \<Rightarrow> (Inr c, st)
      | None \<Rightarrow>
          (case new_Groq (env ''GROQ_API_KEY'') of
             Inl e \<Rightarrow> (Inl e, st)
           | Inr c \<Rightarrow> (Inr c, st\<lparr>groq_handle := Some c\<rparr>)))"

text \<open>Lines 77 to 92: the system turn, the last eight turns of the history with their
  role reduced to \<open>user\<close> or \<open>assistant\<close>, and the new message as a user turn.\<close>

definition groq_messages :: "string \<Rightarrow> chat_message list \<Rightarrow> bool \<Rightarrow> chat_message list" where
  "groq_messages message history isFormatting =
     [\<lparr> role = ''system'',
        content = (if isFormatting then FORMAT_SYSTEM_PROMPT else SYSTEM_PROMPT) \<rparr>]
     @ map (\<lambda>msg. \<lparr> role = (if role msg = ''user'' then ''user'' else ''assistant''),
                    content = content msg \<rparr>)
         (slice_last 8 history)
     @ [\<lparr> role = ''user'', content = message \<rparr>]"

text \<open>Lines 95 to 100.\<close>

definition groq_request_of :: "env \<Rightarrow> string \<Rightarrow> chat_message list \<Rightarrow> bool \<Rightarrow> groq_request" where
  "groq_request_of env message history isFormatting =
     \<lparr> model = (if unset (env ''GROQ_MODEL'') then ''llama-3.3-70b-versatile''
                 else the (env ''GROQ_MODEL'')),
       messages = groq_messages message history isFormatting,
       temperature = 3 / 10,
       max_tokens = 2048 \<rparr>"

text \<open>\<open>response.choices[0]?.message?.content || ""\<close>, line 102.\<close>

definition groq_text :: "groq_response \<Rightarrow> string" where
  "groq_text response =
     (case choices response of
        [] \<Rightarrow> []
      | c # _ \<Rightarrow> (case choice_message c of
                    Some (Some t) \<Rightarrow> t
                  | _ \<Rightarrow> []))"

text \<open>The outer \<open>catch\<close>, lines 120 to 133.\<close>

definition groq_failure :: "js_error \<Rightarrow> js_value" where
  "groq_failure err =
     (if str_includes (error_message err) ''API'' \<or> str_includes (error_message err) ''key''
      then error_result ''Groq API key not configured. Please set GROQ_API_KEY in .env''
      else error_result (''AI processing failed: '' @ error_message err))"

text \<open>
  \<open>processQuery\<close>, lines 74 to 134; \<open>create\<close> is the behaviour of the completion API for
  a client and a request. The result is \<open>Inr\<close> of the value the function returns,
  \<open>Inl\<close> of an exception that leaves it: \<open>getClient()\<close> is called on line 75, before the
  \<open>try\<close> of line 94, so an exception of the constructor is not caught.
\<close>

definition groq_processQuery ::
  "(string option \<Rightarrow> js_error + groq_client) \<Rightarrow> env \<Rightarrow> (string \<Rightarrow> js_error + js_value)
     \<Rightarrow> (groq_client \<Rightarrow> groq_request \<Rightarrow> js_error + groq_response)
     \<Rightarrow> string \<Rightarrow> chat_message list \<Rightarrow> bool \<Rightarrow> groq_state
     \<Rightarrow> (js_error + js_value) \<times> groq_state" where
  "groq_processQuery new_Groq env JSON_parse create message history isFormatting st =
     (case groq_getClient new_Groq env st of
        (Inl e, st1) \<Rightarrow> (Inl e, st1)
      | (Inr groq, st1) \<Rightarrow>
          (let request = groq_request_of env message history isFormatting;
               st2 = st1\<lparr>groq_sent := groq_sent st1 @ [request]\<rparr>
           in (case create groq request of
                 Inr response \<Rightarrow>
                   (if isFormatting then (Inr (text_result (groq_text response)), st2)
                    else (Inr (parse_model_output JSON_parse (groq_text response)), st2))
               | Inl err \<Rightarrow> (Inr (groq_failure err), st2))))"

subsection \<open>\<open>processQuery\<close> of the Gemini module\<close>

text \<open>\<open>new_GoogleGenAI\<close> is the constructor of the SDK, applied to the value of
  \<open>GEMINI_API_KEY\<close>: it returns a client or throws.\<close>

definition gemini_getClient ::
  "(string option \<Rightarrow> js_error + gemini_client) \<Rightarrow> env \<Rightarrow> gemini_state
     \<Rightarrow> (js_error + gemini_client) \<times> gemini_state" where
  "gemini_getClient new_GoogleGenAI env st =
     (case gemini_handle st of
        Some c \<Rightarrow> (Inr c, st)
      | None \<Rightarrow>
          (case new_GoogleGenAI (env ''GEMINI_API_KEY'') of
             Inl e \<Rightarrow> (Inl e, st)
           | Inr c \<Rightarrow> (Inr c, st\<lparr>gemini_handle := Some c\<rparr>)))"

text \<open>The last eight turns of the history with their role reduced to \<open>user\<close> or
  \<open>model\<close>, and the new message as a user turn.\<close>

definition gemini_contents :: "string \<Rightarrow> chat_message list \<Rightarrow> gemini_content list" where
  "gemini_contents message history =
     map (\<lambda>msg. \<lparr> content_role = (if role msg = ''user'' then ''user'' else ''model''),
                  parts = [\<lparr> part_text = content msg \<rparr>] \<rparr>)
       (slice_last 8 history)
     @ [\<lparr> content_role = ''user'', parts = [\<lparr> part_text = message \<rparr>] \<rparr>]"

definition gemini_request_of ::
  "env \<Rightarrow> string \<Rightarrow> chat_message list \<Rightarrow> bool \<Rightarrow> gemini_request" where
  "gemini_request_of env message history isFormatting =
     \<lparr> gemini_model = (if unset (env ''GEMINI_MODEL'') then ''gemini-2.0-flash''
                        else the (env ''GEMINI_MODEL'')),
       contents = gemini_contents message history,
       config = \<lparr> systemInstruction =
                    (if isFormatting then FORMAT_SYSTEM_PROMPT else SYSTEM_PROMPT),
                  maxOutputTokens = 2048 \<rparr> \<rparr>"

text \<open>\<open>response.text || ""\<close>.\<close>

definition gemini_text :: "gemini_response \<Rightarrow> string" where
  "gemini_text response = (case response_text response of None \<Rightarrow> [] | Some t \<Rightarrow> t)"

definition gemini_failure :: "js_error \<Rightarrow> js_value" where
  "gemini_failure err =
     (if str_includes (error_message err) ''API_KEY'' \<or> str_includes (error_message err) ''api key''
      then error_result ''Gemini API key not configured. Please set GEMINI_API_KEY in .env''
      else error_result (''AI processing failed: '' @ error_message err))"

text \<open>As in the Groq module, \<open>getClient()\<close> is called before the \<open>try\<close>.\<close>

definition gemini_processQuery ::
  "(string option \<Rightarrow> js_error + gemini_client) \<Rightarrow> env \<Rightarrow> (string \<Rightarrow> js_error + js_value)
     \<Rightarrow> (gemini_client \<Rightarrow> gemini_request \<Rightarrow> js_error + gemini_response)
     \<Rightarrow> string \<Rightarrow> chat_message list \<Rightarrow> bool \<Rightarrow> gemini_state
     \<Rightarrow> (js_error + js_value) \<times> gemini_state" where
  "gemini_processQuery new_GoogleGenAI env JSON_parse generateContent message history
       isFormatting st =
     (case gemini_getClient new_GoogleGenAI env st of
        (Inl e, st1) \<Rightarrow> (Inl e, st1)
      | (Inr ai, st1) \<Rightarrow>
          (let request = gemini_request_of env message history isFormatting;
               st2 = st1\<lparr>gemini_sent := gemini_sent st1 @ [request]\<rparr>
           in (case generateContent ai request of
                 Inr response \<Rightarrow>
                   (if isFormatting then (Inr (text_result (gemini_text response)), st2)
                    else (Inr (parse_model_output JSON_parse (gemini_text response)), st2))
               | Inl err \<Rightarrow> (Inr (gemini_failure err), st2))))"

section \<open>The orchestrator: the \<open>/api/chat\<close> handler of \<open>server/index.js\<close>\<close>

text \<open>The request body: \<open>message\<close> is any value (\<open>JUndefined\<close> when left out), \<open>history\<close>
  a list of turns or left out.\<close>

record chat_body =
  body_message :: js_value
  body_history :: "chat_message list option"

record http_response =
  status :: nat
  body :: js_value

text \<open>The calls the handler makes to the two modules it imports, in order.\<close>

datatype component_call =
    Call_processQuery string "chat_message list" bool
  | Call_queryGA4 js_value

text \<open>\<open>const { message, history = [] } = req.body\<close>.\<close>

definition history_of :: "chat_body \<Rightarrow> chat_message list" where
  "history_of b = (case body_history b of None \<Rightarrow> [] | Some h \<Rightarrow> h)"

text \<open>The \<open>catch\<close> block, lines 151 to 157.\<close>

definition server_error :: "env \<Rightarrow> js_error \<Rightarrow> http_response" where
  "server_error env err =
     \<lparr> status = 500,
       body = JObject [(''error'', JString ''Failed to process your query. Please try again.''),
                       (''details'', if env ''NODE_ENV'' = Some ''development''
                                     then JString (error_message err) else JUndefined)] \<rparr>"

definition bad_request :: "string \<Rightarrow> http_response" where
  "bad_request msg = \<lparr> status = 400, body = JObject [(''error'', JString msg)] \<rparr>"

text \<open>\<open>res.json(payload)\<close> without a status: 200.\<close>

definition json_response :: "js_value \<Rightarrow> http_response" where
  "json_response payload = \<lparr> status = 200, body = payload \<rparr>"

text \<open>The template string of lines 140 to 146; \<open>JSON_stringify\<close> is the runtime's
  \<open>JSON.stringify\<close>.\<close>

definition format_prompt :: "(js_value \<Rightarrow> string) \<Rightarrow> string \<Rightarrow> js_value \<Rightarrow> js_value \<Rightarrow> string" where
  \<open>format_prompt JSON_stringify message ga4Params ga4Data =
     ''Here is the raw GA4 data for the user's question "'' @ message @
     ''". 
       Format this data as a clear, insightful answer. Use markdown tables where appropriate.
       Include key insights and trends. Keep it concise but informative.
       If relevant, suggest follow-up questions.
       
       GA4 Query params: '' @ JSON_stringify ga4Params @
     ''
       GA4 Data: '' @ JSON_stringify ga4Data\<close>

text \<open>Reading a property throws a \<open>TypeError\<close> on \<open>null\<close> and \<open>undefined\<close>; the
  message is the one of Node 18, with the name of the property between single quotes.\<close>

definition nullish :: "js_value \<Rightarrow> bool" where
  "nullish v = (v = JNull \<or> v = JUndefined)"

definition cannot_read :: "js_value \<Rightarrow> string \<Rightarrow> js_error" where
  "cannot_read v p =
     Error (''Cannot read properties of '' @ (if v = JNull then ''null'' else ''undefined'')
            @ '' (reading '' @ [CHR 0x27] @ p @ [CHR 0x27] @ '')'')"

text \<open>
  The handler, lines 104 to 158. \<open>processQuery\<close> is the function the provider module
  exports (\<open>ai.js\<close> picks the module), \<open>run_query\<close> the executor as the handler
  calls it, with the value the interpreter returned; each works on its own module state. The
  handler returns the response, the calls it made and the two states.
\<close>

definition chat_handler ::
  "env \<Rightarrow> (js_value \<Rightarrow> string)
     \<Rightarrow> (string \<Rightarrow> chat_message list \<Rightarrow> bool \<Rightarrow> 'a \<Rightarrow> (js_error + js_value) \<times> 'a)
     \<Rightarrow> (js_value \<Rightarrow> 'g \<Rightarrow> (js_error + js_value) \<times> 'g)
     \<Rightarrow> chat_body \<Rightarrow> 'a \<times> 'g \<Rightarrow> http_response \<times> component_call list \<times> 'a \<times> 'g" where
  "chat_handler env JSON_stringify processQuery run_query b s =
     (case s of (a, g) \<Rightarrow>
      (case body_message b of
         JString message \<Rightarrow>
           if message = [] then (bad_request ''Message is required'', [], a, g)
           else if length message > 2000
             then (bad_request ''Message too long (max 2000 chars)'', [], a, g)
           else
             (let history = history_of b;
                  call1 = Call_processQuery message history False
              in case processQuery message history False a of
                   (Inl err, a1) \<Rightarrow> (server_error env err, [call1], a1, g)
                 | (Inr ga4Params, a1) \<Rightarrow>
                     if nullish ga4Params
                       then (server_error env (cannot_read ga4Params ''error''),
                             [call1], a1, g)
                     else if truthy (get_property ga4Params ''error'')
                       then (json_response
                               (JObject [(''type'', JString ''text''),
                                         (''content'', get_property ga4Params ''error'')]),
                             [call1], a1, g)
                     else if get_property ga4Params ''type'' = JString ''text''
                       then (json_response
                               (JObject [(''type'', JString ''text''),
                                         (''content'', get_property ga4Params ''content'')]),
                             [call1], a1, g)
                     else
                       (let call2 = Call_queryGA4 ga4Params
                        in case run_query ga4Params g of
                             (Inl err, g1) \<Rightarrow> (server_error env err, [call1, call2], a1, g1)
                           | (Inr ga4Data, g1) \<Rightarrow>
                               (let prompt = format_prompt JSON_stringify message ga4Params ga4Data;
                                    call3 = Call_processQuery prompt [] True
                                in case processQuery prompt [] True a1 of
                                     (Inl err, a2) \<Rightarrow>
                                       (server_error env err, [call1, call2, call3], a2, g1)
                                   | (Inr response, a2) \<Rightarrow>
                                       if nullish response
                                         then (server_error env (cannot_read response ''content''),
                                               [call1, call2, call3], a2, g1)
                                       else
                                         (json_response
                                            (JObject
                                               [(''type'', JString ''analytics''),
                                                (''content'',
                                                   if truthy (get_property response ''content'')
                                                   then get_property response ''content''
                                                   else response),
                                                (''rawData'', ga4Data),
                                                (''query'', ga4Params)]),
                                          [call1, call2, call3], a2, g1))))
       | _ \<Rightarrow> (bad_request ''Message is required'', [], a, g)))"

section \<open>Concrete inputs\<close>

subsection \<open>Inputs of the Analytics Query Executor\<close>

text \<open>An environment with every variable the server requires at start-up, and the same
  environment without the key of the Groq API.\<close>

definition example_env :: env where
  "example_env =
     [''GA4_PROPERTY_ID'' \<mapsto> ''123456'',
      ''GOOGLE_APPLICATION_CREDENTIALS'' \<mapsto> ''/app/credentials/key.json'',
      ''GROQ_API_KEY'' \<mapsto> ''gsk_example_key'',
      ''GEMINI_API_KEY'' \<mapsto> ''gemini_example_key'']"

definition keyless_env :: env where
  "keyless_env =
     [''GA4_PROPERTY_ID'' \<mapsto> ''123456'',
      ''GOOGLE_APPLICATION_CREDENTIALS'' \<mapsto> ''/app/credentials/key.json'']"

definition example_client :: analytics_client where
  "example_client = BetaAnalyticsDataClient (KeyFilename ''/app/credentials/key.json'')"

definition fresh_state :: ga4_state where
  "fresh_state = \<lparr> analyticsClient = None, outbound = [] \<rparr>"

definition ready_state :: ga4_state where
  "ready_state = \<lparr> analyticsClient = Some example_client, outbound = [] \<rparr>"

text \<open>A reporting API that fails every call with the given message, and one that
  answers every call with the given response.\<close>

definition failing_report ::
  "string \<Rightarrow> analytics_client \<Rightarrow> report_request \<Rightarrow> js_error + report_response" where
  "failing_report msg client request = Inl (Error msg)"

definition answering_report ::
  "report_response \<Rightarrow> analytics_client \<Rightarrow> report_request \<Rightarrow> js_error + report_response" where
  "answering_report response client request = Inr response"

text \<open>The parameter object \<open>{ metrics: ["sessions"] }\<close>.\<close>

definition sessions_only :: query_params where
  "sessions_only =
     \<lparr> dimensions = None, metrics = Some [''sessions''], startDate = None, endDate = None,
       limit = None, dimensionFilter = None, orderBys = None \<rparr>"

definition empty_response :: report_response where
  "empty_response = \<lparr> rows = None, totals = None, rowCount = None \<rparr>"

definition all_defaults :: query_params where
  "all_defaults =
     \<lparr> dimensions = None, metrics = None, startDate = None, endDate = None,
       limit = None, dimensionFilter = None, orderBys = None \<rparr>"

definition duplicate_metrics :: query_params where
  "duplicate_metrics =
     \<lparr> dimensions = None, metrics = Some [''sessions'', ''sessions''], startDate = None,
       endDate = None, limit = None, dimensionFilter = None, orderBys = None \<rparr>"

definition two_values_row :: report_row where
  "two_values_row =
     \<lparr> dimensionValues = [ReportValue ''20240101''],
       metricValues = [ReportValue ''10'', ReportValue ''20''] \<rparr>"

definition two_values_response :: report_response where
  "two_values_response =
     \<lparr> rows = Some [two_values_row], totals = Some [two_values_row], rowCount = Some 1 \<rparr>"


subsection \<open>Inputs of the Query Interpreter\<close>

text \<open>Constructors that refuse a missing key, as the Groq SDK does.\<close>

definition groq_sdk :: "string option \<Rightarrow> js_error + groq_client" where
  "groq_sdk key =
     (case key of
        None \<Rightarrow> Inl (Error ''The GROQ_API_KEY environment variable is missing or empty'')
      | Some k \<Rightarrow> Inr (Groq k))"

definition gemini_sdk :: "string option \<Rightarrow> js_error + gemini_client" where
  "gemini_sdk key =
     (case key of
        None \<Rightarrow> Inl (Error ''API key must be set when using the Gemini API'')
      | Some k \<Rightarrow> Inr (GoogleGenAI k))"

definition example_groq :: groq_client where
  "example_groq = Groq ''gsk_example_key''"

definition example_gemini :: gemini_client where
  "example_gemini = GoogleGenAI ''gemini_example_key''"

text \<open>The module states before the first call, and the Groq state once the client is
  cached.\<close>

definition groq_fresh :: groq_state where
  "groq_fresh = \<lparr> groq_handle = None, groq_sent = [] \<rparr>"

definition groq_ready :: groq_state where
  "groq_ready = \<lparr> groq_handle = Some example_groq, groq_sent = [] \<rparr>"

definition gemini_fresh :: gemini_state where
  "gemini_fresh = \<lparr> gemini_handle = None, gemini_sent = [] \<rparr>"

definition gemini_ready :: gemini_state where
  "gemini_ready = \<lparr> gemini_handle = Some example_gemini, gemini_sent = [] \<rparr>"

text \<open>A completion API that fails every call with the given message, and one that
  answers every call with the given text; the same for the Gemini API.\<close>

definition failing_completion ::
  "string \<Rightarrow> groq_client \<Rightarrow> groq_request \<Rightarrow> js_error + groq_response" where
  "failing_completion msg client request = Inl (Error msg)"

definition answering_completion ::
  "string \<Rightarrow> groq_client \<Rightarrow> groq_request \<Rightarrow> js_error + groq_response" where
  "answering_completion t client request =
     Inr \<lparr> choices = [\<lparr> choice_message = Some (Some t) \<rparr>] \<rparr>"

definition failing_generation ::
  "string \<Rightarrow> gemini_client \<Rightarrow> gemini_request \<Rightarrow> js_error + gemini_response" where
  "failing_generation msg client request = Inl (Error msg)"

text \<open>A \<open>JSON.parse\<close> that knows the listed texts and rejects every other text.\<close>

definition parse_listed :: "(string \<times> js_value) list \<Rightarrow> string \<Rightarrow> js_error + js_value" where
  "parse_listed table s =
     (case map_of table s of
        Some v \<Rightarrow> Inr v
      | None \<Rightarrow> Inl (Error ''Unexpected token in JSON''))"

text \<open>Answers of the model: one without braces, one whose braces hold no JSON, one whose
  braces hold the JSON object \<open>{"foo":1}\<close>, and the refusal the system prompt asks for.\<close>

definition plain_answer :: string where
  "plain_answer = ''I can only answer questions about your analytics data.''"

definition broken_answer :: string where
  "broken_answer = ''Here is the query: {metrics: sessions} for last week''"

definition foo_json :: string where
  \<open>foo_json = ''{"foo":1}''\<close>

definition foo_answer :: string where
  "foo_answer = ''Sure, here you go: '' @ foo_json"

definition foo_object :: js_value where
  "foo_object = JObject [(''foo'', JNumber (Num 1))]"

definition refusal_json :: string where
  \<open>refusal_json = ''{"type": "text", "content": "I can't answer that"}''\<close>

definition refusal_object :: js_value where
  "refusal_object = JObject [(''type'', JString ''text''), (''content'', JString ''I can't answer that'')]"

text \<open>A question, and a history of ten turns.\<close>

definition question :: string where
  "question = ''How many users came last week?''"

definition ten_turns :: "chat_message list" where
  "ten_turns =
     [\<lparr> role = ''user'', content = ''q1'' \<rparr>, \<lparr> role = ''assistant'', content = ''a1'' \<rparr>,
      \<lparr> role = ''user'', content = ''q2'' \<rparr>, \<lparr> role = ''assistant'', content = ''a2'' \<rparr>,
      \<lparr> role = ''user'', content = ''q3'' \<rparr>, \<lparr> role = ''assistant'', content = ''a3'' \<rparr>,
      \<lparr> role = ''user'', content = ''q4'' \<rparr>, \<lparr> role = ''assistant'', content = ''a4'' \<rparr>,
      \<lparr> role = ''user'', content = ''q5'' \<rparr>, \<lparr> role = ''assistant'', content = ''a5'' \<rparr>]"

subsection \<open>Inputs of the orchestrator\<close>

definition question_body :: chat_body where
  "question_body = \<lparr> body_message = JString question, body_history = None \<rparr>"

text \<open>An executor that answers every call with the given data, and a \<open>JSON.stringify\<close>
  that knows the listed values.\<close>

definition answering_executor ::
  "js_value \<Rightarrow> js_value \<Rightarrow> ga4_state \<Rightarrow> (js_error + js_value) \<times> ga4_state" where
  "answering_executor data params g = (Inr data, g)"

text \<open>What the executor answers in the examples.\<close>

definition report_data :: js_value where
  "report_data = JObject [(''rows'', JArray []), (''totals'', JObject [])]"

definition stringify_listed :: "(js_value \<times> string) list \<Rightarrow> js_value \<Rightarrow> string" where
  "stringify_listed table v = (case map_of table v of Some s \<Rightarrow> s | None \<Rightarrow> ''null'')"

section \<open>The specification's predicates\<close>

subsection \<open>The failure text, read without regard to casing\<close>

text \<open>The specification asks for a case-insensitive search: both strings are put in
  lower case before the search.\<close>

definition to_lower :: "char \<Rightarrow> char" where
  "to_lower c =
     (case map_of (zip ''ABCDEFGHIJKLMNOPQRSTUVWXYZ'' ''abcdefghijklmnopqrstuvwxyz'') c of
        Some l \<Rightarrow> l
      | None \<Rightarrow> c)"

definition includes_in_any_casing :: "string \<Rightarrow> string \<Rightarrow> bool" where
  "includes_in_any_casing s p = str_includes (map to_lower s) (map to_lower p)"

subsection \<open>Positional pairing of metric names and values\<close>

text \<open>
  A parsed row (or the totals) pairs \<open>N\<close> metric names with \<open>N\<close> positional values when
  it has exactly \<open>N\<close> keys that are metric names and the value under the \<open>i\<close>-th name is
  the \<open>i\<close>-th value, after its numeric parse.
\<close>

definition zipped_by_position :: "string list \<Rightarrow> report_value list \<Rightarrow> js_object \<Rightarrow> bool" where
  "zipped_by_position mets mvs obj \<longleftrightarrow>
     length (filter (\<lambda>k. k \<in> set mets) (map fst obj)) = length mets \<and>
     (\<forall>i<length mets.
        map_of obj (mets ! i) =
          Some (metric_value (if value_of (mvs ! i) = [] then ''0'' else value_of (mvs ! i))))"

subsection \<open>Balanced brace groups\<close>

text \<open>
  The depth of nesting after a text, starting from a depth; \<open>None\<close> when a closing brace
  closes nothing. A balanced brace group starts with an opening brace that its last
  character closes. The specification speaks of the texts that contain such a group.
\<close>

fun nesting :: "nat \<Rightarrow> string \<Rightarrow> nat option" where
  "nesting d [] = Some d"
| "nesting d (c # cs) =
     (if c = CHR ''{'' then nesting (Suc d) cs
      else if c = CHR ''}'' then (case d of 0 \<Rightarrow> None | Suc d' \<Rightarrow> nesting d' cs)
      else nesting d cs)"

definition balanced_braces :: "string \<Rightarrow> bool" where
  "balanced_braces s \<longleftrightarrow>
     (case s of
        [] \<Rightarrow> False
      | c # r \<Rightarrow> c = CHR ''{'' \<and> r \<noteq> [] \<and> last r = CHR ''}'' \<and> nesting 0 (butlast r) = Some 0)"

definition has_balanced_substring :: "string \<Rightarrow> bool" where
  "has_balanced_substring t \<longleftrightarrow> (\<exists>s. sublist s t \<and> balanced_braces s)"

section \<open>Properties of the Analytics Query Executor\<close>

subsection \<open>Client and property id\<close>

text \<open>Both copies of \<open>getClient\<close> hand out the cached client when there is one.\<close>

lemma getClient_cached:
  "analyticsClient st = Some c \<Longrightarrow> getClient env st = (Inr c, st)"
  by (simp add: getClient_def)

lemma getClient_inline_cached:
  "analyticsClient st = Some c \<Longrightarrow> getClient_inline JSON_parse env st = (Inr c, st)"
  by (simp add: getClient_inline_def)

lemma example_client_ready:
  "getClient example_env fresh_state = (Inr example_client, ready_state)"
  by (simp add: getClient_def example_env_def fresh_state_def ready_state_def
      example_client_def unset_def Let_def)

lemma example_property: "example_env ''GA4_PROPERTY_ID'' = Some ''123456''"
  by (simp add: example_env_def)

lemma example_property_set: "''123456'' \<noteq> ([] :: string)"
  by simp

text \<open>With a client and a property id at hand, \<open>queryGA4\<close> sends one request and
  either parses the response or classifies the failure.\<close>

lemma queryGA4_configured:
  assumes "client_of st = (Inr client, st1)"
    and "env ''GA4_PROPERTY_ID'' = Some propertyId"
    and "propertyId \<noteq> []"
  shows "queryGA4 client_of env runReport params st =
           (case runReport client (build_request propertyId params) of
              Inr response \<Rightarrow> Inr (parse_response propertyId params response)
            | Inl err \<Rightarrow> Inl (classify_failure propertyId err),
            st1\<lparr>outbound := outbound st1 @ [build_request propertyId params]\<rparr>)"
  using assms by (simp add: queryGA4_def unset_def Let_def split: sum.splits)

lemmas example_queryGA4 =
  queryGA4_configured [where client_of = "getClient example_env" and st = fresh_state and env = example_env,
    OF example_client_ready example_property example_property_set]

subsection \<open>The request\<close>

text \<open>
  C6. \<open>queryGA4\<close> sends exactly one request, and every field the parameters leave out
  is filled with its default before the request is built: dimensions \<open>["date"]\<close>, metrics
  \<open>["totalUsers", "sessions"]\<close>, start date \<open>7daysAgo\<close>, end date \<open>yesterday\<close>, limit 100,
  no filter, and an ordering by the first metric, descending.
\<close>

theorem queryGA4_request_defaults:
  assumes "client_of st = (Inr client, st1)"
    and "env ''GA4_PROPERTY_ID'' = Some propertyId"
    and "propertyId \<noteq> []"
  shows "outbound (snd (queryGA4 client_of env runReport params st)) =
           outbound st1 @
           [\<lparr> property = ''properties/'' @ propertyId,
              dateRanges =
                [\<lparr> range_startDate = (case startDate params of None \<Rightarrow> ''7daysAgo'' | Some s \<Rightarrow> s),
                   range_endDate = (case endDate params of None \<Rightarrow> ''yesterday'' | Some s \<Rightarrow> s) \<rparr>],
              request_dimensions = (case dimensions params of None \<Rightarrow> [''date''] | Some d \<Rightarrow> d),
              request_metrics =
                (case metrics params of None \<Rightarrow> [''totalUsers'', ''sessions''] | Some m \<Rightarrow> m),
              request_limit = (case limit params of None \<Rightarrow> 100 | Some n \<Rightarrow> n),
              request_dimensionFilter =
                (case dimensionFilter params of
                   None \<Rightarrow> None
                 | Some f \<Rightarrow> if truthy f then Some f else None),
              request_orderBys =
                (if orderBys params = None \<or> orderBys params = Some []
                 then [JObject [(''metric'', JObject [(''metricName'',
                          (case metrics params of
                             None \<Rightarrow> JString ''totalUsers''
                           | Some [] \<Rightarrow> JUndefined
                           | Some (m # ms) \<Rightarrow> JString m))]),
                        (''desc'', JBool True)]]
                 else the (orderBys params)) \<rparr>]"
    (is "_ = _ @ [?request]")
proof -
  have "outbound (snd (queryGA4 client_of env runReport params st)) =
          outbound st1 @ [build_request propertyId params]"
    using assms by (simp add: queryGA4_def unset_def Let_def split: sum.split)
  also have "build_request propertyId params = ?request"
    by (simp add: build_request_def startDate_of_def endDate_of_def
        dimensions_of_def metrics_of_def limit_of_def dimensionFilter_of_def first_metric_def
        split: option.split list.split)
  finally show ?thesis .
qed

text \<open>C6 at the parameters \<open>{ metrics: ["sessions"] }\<close>: the request the claim lists.\<close>

theorem queryGA4_request_defaults_witness:
  "getClient example_env fresh_state = (Inr example_client, ready_state) \<and>
   example_env ''GA4_PROPERTY_ID'' = Some ''123456'' \<and>
   outbound (snd (queryGA4 (getClient example_env) example_env (answering_report empty_response)
                    sessions_only fresh_state)) =
     [\<lparr> property = ''properties/123456'',
        dateRanges = [\<lparr> range_startDate = ''7daysAgo'', range_endDate = ''yesterday'' \<rparr>],
        request_dimensions = [''date''],
        request_metrics = [''sessions''],
        request_limit = 100,
        request_dimensionFilter = None,
        request_orderBys =
          [JObject [(''metric'', JObject [(''metricName'', JString ''sessions'')]),
                    (''desc'', JBool True)]] \<rparr>]"
  using queryGA4_request_defaults
          [where client_of = "getClient example_env" and st = fresh_state and env = example_env
             and runReport = "answering_report empty_response" and params = sessions_only,
           OF example_client_ready example_property example_property_set]
        example_client_ready example_property
  by (simp add: sessions_only_def ready_state_def)

subsection \<open>Failures of the remote call\<close>

text \<open>
  C1 (as the claim states it, refuted). The failure text \<open>PERMISSION DENIED\<close> contains
  the word "permission" when casing is ignored, yet \<open>queryGA4\<close> rethrows the original
  error and not the permission error: the search of the \<open>catch\<close> block is
  case-sensitive.
\<close>

theorem queryGA4_uppercase_permission_rethrown:
  "includes_in_any_casing ''PERMISSION DENIED'' ''permission'' \<and>
   fst (queryGA4 (getClient example_env) example_env (failing_report ''PERMISSION DENIED'')
          sessions_only fresh_state)
     = Inl (Error ''PERMISSION DENIED'') \<and>
   fst (queryGA4 (getClient example_env) example_env (failing_report ''PERMISSION DENIED'')
          sessions_only fresh_state)
     \<noteq> Inl (Error ''Permission denied. Check service account access in GA4.'')"
  by (simp add: example_queryGA4 failing_report_def classify_failure_def
      includes_in_any_casing_def to_lower_def)

text \<open>
  C1 (amended). When the remote call fails and the failure text contains the lower-case
  substring \<open>permission\<close>, \<open>queryGA4\<close> fails with the permission error. A failure text
  without that exact substring is never classified as a permission failure: it is
  searched for \<open>not found\<close> and otherwise rethrown as it is.
\<close>

theorem queryGA4_permission_case_sensitive:
  assumes "client_of st = (Inr client, st1)"
    and "env ''GA4_PROPERTY_ID'' = Some propertyId"
    and "propertyId \<noteq> []"
    and "runReport client (build_request propertyId params) = Inl err"
  shows "fst (queryGA4 client_of env runReport params st) =
           (if str_includes (error_message err) ''permission''
              then Inl (Error ''Permission denied. Check service account access in GA4.'')
            else if str_includes (error_message err) ''not found''
              then Inl (Error (''Property '' @ propertyId @ '' not found. Check your GA4_PROPERTY_ID.''))
            else Inl err)"
  using assms by (simp add: queryGA4_def unset_def Let_def classify_failure_def)

text \<open>The amended C1 at a failure text of the reporting API.\<close>

theorem queryGA4_permission_case_sensitive_witness:
  "getClient example_env fresh_state = (Inr example_client, ready_state) \<and>
   example_env ''GA4_PROPERTY_ID'' = Some ''123456'' \<and>
   failing_report ''7 PERMISSION_DENIED: User does not have sufficient permissions for this property.''
       example_client (build_request ''123456'' sessions_only)
     = Inl (Error ''7 PERMISSION_DENIED: User does not have sufficient permissions for this property.'') \<and>
   fst (queryGA4 (getClient example_env) example_env
          (failing_report ''7 PERMISSION_DENIED: User does not have sufficient permissions for this property.'')
          sessions_only fresh_state)
     = Inl (Error ''Permission denied. Check service account access in GA4.'')"
proof -
  let ?msg = "''7 PERMISSION_DENIED: User does not have sufficient permissions for this property.''"
  have fails: "failing_report ?msg example_client (build_request ''123456'' sessions_only)
                 = Inl (Error ?msg)"
    by (simp add: failing_report_def)
  have found: "str_includes ?msg ''permission''"
    by simp
  from queryGA4_permission_case_sensitive
         [where client_of = "getClient example_env" and st = fresh_state and env = example_env
            and runReport = "failing_report ?msg" and params = sessions_only,
          OF example_client_ready example_property example_property_set fails]
  have "fst (queryGA4 (getClient example_env) example_env (failing_report ?msg)
               sessions_only fresh_state)
          = Inl (Error ''Permission denied. Check service account access in GA4.'')"
    using found by simp
  then show ?thesis
    using example_client_ready example_property fails by simp
qed

subsection \<open>Numeric strings\<close>

lemmas numeric_defs =
  metric_value_def isNaN_def parseFloat_def StringToNumber_def trim_def non_decimal_def
  scan_decimal_def scan_unsigned_def scan_exponent_def radix_value_def digit_value_def
  is_digit_def is_whitespace_def scale_def negate_def


text \<open>\<open>isNaN\<close> reads the whole string as \<open>Number\<close> does, \<open>parseFloat\<close> a decimal prefix: a
  string of blanks and a hexadecimal literal are numeric for the first and have no
  decimal value for the second.\<close>

lemma metric_value_blank: "metric_value '' '' = JNumber NaN"
  by (simp add: numeric_defs)

lemma metric_value_hexadecimal: "metric_value ''0x1A'' = JNumber (Num 0)"
  by (simp add: numeric_defs)

lemma metric_value_10: "metric_value ''10'' = JNumber (Num 10)"
  by (simp add: numeric_defs)

lemma metric_value_20: "metric_value ''20'' = JNumber (Num 20)"
  by (simp add: numeric_defs)

subsection \<open>The two loops that fill a parsed row\<close>

lemma map_of_set_property:
  "map_of (set_property obj k v) =
     (if k = ''__proto__'' then map_of obj else (map_of obj)(k \<mapsto> v))"
  by (simp add: set_property_def update_conv')

lemma keys_set_property:
  "map fst (set_property obj k v) =
     (if k = ''__proto__'' \<or> k \<in> set (map fst obj) then map fst obj else map fst obj @ [k])"
  by (simp add: set_property_def update_keys)

lemma forEach_metrics_other:
  "k \<notin> set ms \<Longrightarrow> map_of (forEach_metrics ms i mvs parsed) k = map_of parsed k"
  by (induction ms arbitrary: i parsed) (auto simp: map_of_set_property)


lemma forEach_metrics_at:
  "j < length ms \<Longrightarrow> ms ! j \<notin> set (drop (Suc j) ms) \<Longrightarrow> ms ! j \<noteq> ''__proto__'' \<Longrightarrow>
   map_of (forEach_metrics ms i mvs parsed) (ms ! j)
     = Some (metric_value (value_or mvs (i + j) ''0''))"
proof (induction ms arbitrary: i j parsed)
  case Nil
  then show ?case by simp
next
  case (Cons m ms)
  show ?case
  proof (cases j)
    case 0
    with Cons.prems show ?thesis
      by (simp add: forEach_metrics_other map_of_set_property)
  next
    case (Suc j')
    with Cons.prems Cons.IH [of j' "Suc i"] show ?thesis
      by simp
  qed
qed


lemma key_set_set_property:
  "fst ` set (set_property obj k v) =
     (if k = ''__proto__'' then fst ` set obj else insert k (fst ` set obj))"
  by (simp add: set_property_def dom_update)

lemma forEach_metrics_keys:
  "fst ` set (forEach_metrics ms i mvs parsed) = fst ` set parsed \<union> (set ms - {''__proto__''})"
  by (induction ms arbitrary: i parsed) (auto simp: key_set_set_property)

lemma forEach_metrics_distinct:
  "distinct (map fst parsed) \<Longrightarrow> distinct (map fst (forEach_metrics ms i mvs parsed))"
  by (induction ms arbitrary: i parsed) (auto simp: keys_set_property)

lemma forEach_dimensions_distinct:
  "distinct (map fst parsed) \<Longrightarrow> distinct (map fst (forEach_dimensions ds i dvs parsed))"
  by (induction ds arbitrary: i parsed) (auto simp: keys_set_property)

lemma metric_keys_count:
  assumes "distinct ks" and "distinct ms" and "set ms \<subseteq> set ks"
  shows "length (filter (\<lambda>k. k \<in> set ms) ks) = length ms"
proof -
  have "distinct (filter (\<lambda>k. k \<in> set ms) ks)"
    using assms(1) by simp
  moreover have "set (filter (\<lambda>k. k \<in> set ms) ks) = set ms"
    using assms(3) by auto
  ultimately show ?thesis
    using assms(2) by (metis distinct_card)
qed

lemma forEach_metrics_zipped:
  assumes "distinct mets" and "''__proto__'' \<notin> set mets" and "length mvs = length mets"
    and "distinct (map fst parsed)"
  shows "zipped_by_position mets mvs (forEach_metrics mets 0 mvs parsed)"
proof -
  let ?obj = "forEach_metrics mets 0 mvs parsed"
  have keys: "set mets \<subseteq> set (map fst ?obj)"
    using assms(2) by (auto simp: forEach_metrics_keys)
  have "distinct (map fst ?obj)"
    using assms(4) by (rule forEach_metrics_distinct)
  then have count: "length (filter (\<lambda>k. k \<in> set mets) (map fst ?obj)) = length mets"
    using assms(1) keys by (rule metric_keys_count)
  have "map_of ?obj (mets ! i) =
          Some (metric_value (if value_of (mvs ! i) = [] then ''0'' else value_of (mvs ! i)))"
    if "i < length mets" for i
  proof -
    have "mets ! i \<notin> set (drop (Suc i) mets)"
      using assms(1) that
      by (metis Cons_nth_drop_Suc distinct.simps(2) distinct_drop)
    moreover have "mets ! i \<noteq> ''__proto__''"
      using assms(2) that by (metis nth_mem)
    ultimately have "map_of ?obj (mets ! i) = Some (metric_value (value_or mvs (0 + i) ''0''))"
      using that by (intro forEach_metrics_at)
    then show ?thesis
      using that assms(3) by (simp add: value_or_def)
  qed
  with count show ?thesis
    by (simp add: zipped_by_position_def)
qed

lemma parse_row_zipped:
  assumes "distinct mets" and "''__proto__'' \<notin> set mets"
    and "length (metricValues row) = length mets"
  shows "zipped_by_position mets (metricValues row) (parse_row dims mets row)"
  unfolding parse_row_def
  by (rule forEach_metrics_zipped [OF assms]) (simp add: forEach_dimensions_distinct)

lemma parse_totals_zipped:
  assumes "distinct mets" and "''__proto__'' \<notin> set mets"
    and "length (metricValues t) = length mets"
  shows "zipped_by_position mets (metricValues t) (parse_totals mets (Some (t # ts)))"
  by (simp add: parse_totals_def forEach_metrics_zipped [OF assms])

subsection \<open>Rows and totals\<close>

text \<open>The rows and the totals of the result are the work of \<open>parse_row\<close> and
  \<open>parse_totals\<close>.\<close>

lemma queryGA4_rows_and_totals:
  assumes "client_of st = (Inr client, st1)"
    and "env ''GA4_PROPERTY_ID'' = Some propertyId"
    and "propertyId \<noteq> []"
    and "runReport client (build_request propertyId params) = Inr response"
  shows "\<exists>result.
           fst (queryGA4 client_of env runReport params st) = Inr result \<and>
           result_rows result =
             map (parse_row (dimensions_of params) (metrics_of params)) (rows_or_empty response) \<and>
           result_totals result = parse_totals (metrics_of params) (totals response)"
  using assms by (simp add: queryGA4_def unset_def Let_def parse_response_def)

text \<open>
  C3 (as the claim states it, refuted). With the metrics \<open>["sessions", "sessions"]\<close> and a
  row that carries the two positional values 10 and 20, the parsed row has one metric
  key, and it holds the second value.
\<close>

theorem queryGA4_duplicate_metric_names_share_a_key:
  "fst (queryGA4 (getClient example_env) example_env (answering_report two_values_response)
          duplicate_metrics fresh_state) =
     Inr \<lparr> result_rows = [[(''date'', JString ''20240101''), (''sessions'', JNumber (Num 20))]],
           result_totals = [(''sessions'', JNumber (Num 20))],
           metadata =
             \<lparr> meta_rowCount = 1, meta_dimensions = [''date''],
               meta_metrics = [''sessions'', ''sessions''],
               meta_dateRange = \<lparr> range_startDate = ''7daysAgo'', range_endDate = ''yesterday'' \<rparr>,
               meta_propertyId = ''123456'' \<rparr> \<rparr> \<and>
   \<not> zipped_by_position [''sessions'', ''sessions''] (metricValues two_values_row)
       [(''date'', JString ''20240101''), (''sessions'', JNumber (Num 20))]"
proof -
  have "\<not> zipped_by_position [''sessions'', ''sessions''] (metricValues two_values_row)
       [(''date'', JString ''20240101''), (''sessions'', JNumber (Num 20))]"
    by (simp add: zipped_by_position_def)
  moreover have "parse_response ''123456'' duplicate_metrics two_values_response =
     \<lparr> result_rows = [[(''date'', JString ''20240101''), (''sessions'', JNumber (Num 20))]],
           result_totals = [(''sessions'', JNumber (Num 20))],
           metadata =
             \<lparr> meta_rowCount = 1, meta_dimensions = [''date''],
               meta_metrics = [''sessions'', ''sessions''],
               meta_dateRange = \<lparr> range_startDate = ''7daysAgo'', range_endDate = ''yesterday'' \<rparr>,
               meta_propertyId = ''123456'' \<rparr> \<rparr>"
    by (simp add: parse_response_def duplicate_metrics_def two_values_response_def
        two_values_row_def rows_or_empty_def parse_row_def parse_totals_def dimensions_of_def
        metrics_of_def startDate_of_def endDate_of_def set_property_def value_or_def
        metric_value_10 metric_value_20)
  ultimately show ?thesis
    by (simp add: example_queryGA4 answering_report_def)
qed

text \<open>
  C3 (amended). For parameters whose \<open>N\<close> metric names are pairwise distinct and none of
  them \<open>__proto__\<close>, \<open>queryGA4\<close> turns every response row that carries \<open>N\<close> positional
  metric values into a row with exactly \<open>N\<close> metric keys, the value under the \<open>i\<close>-th
  metric name being the \<open>i\<close>-th positional value after its numeric parse; the totals are
  paired the same way with the first totals row.
\<close>

theorem queryGA4_zips_distinct_metrics_by_position:
  assumes "client_of st = (Inr client, st1)"
    and "env ''GA4_PROPERTY_ID'' = Some propertyId"
    and "propertyId \<noteq> []"
    and "runReport client (build_request propertyId params) = Inr response"
    and "distinct (metrics_of params)"
    and "''__proto__'' \<notin> set (metrics_of params)"
  shows "\<exists>result.
           fst (queryGA4 client_of env runReport params st) = Inr result \<and>
           length (result_rows result) = length (rows_or_empty response) \<and>
           (\<forall>j<length (rows_or_empty response).
              length (metricValues (rows_or_empty response ! j)) = length (metrics_of params) \<longrightarrow>
              zipped_by_position (metrics_of params)
                (metricValues (rows_or_empty response ! j)) (result_rows result ! j)) \<and>
           (\<forall>t ts. totals response = Some (t # ts) \<longrightarrow>
              length (metricValues t) = length (metrics_of params) \<longrightarrow>
              zipped_by_position (metrics_of params) (metricValues t) (result_totals result))"
proof -
  let ?result = "parse_response propertyId params response"
  have "fst (queryGA4 client_of env runReport params st) = Inr ?result"
    using assms(1-4) by (simp add: queryGA4_def unset_def Let_def)
  moreover have "length (result_rows ?result) = length (rows_or_empty response)"
    by (simp add: parse_response_def Let_def)
  moreover have "zipped_by_position (metrics_of params)
                   (metricValues (rows_or_empty response ! j)) (result_rows ?result ! j)"
    if "j < length (rows_or_empty response)"
      and "length (metricValues (rows_or_empty response ! j)) = length (metrics_of params)" for j
    using that by (simp add: parse_response_def Let_def parse_row_zipped [OF assms(5,6)])
  moreover have "zipped_by_position (metrics_of params) (metricValues t) (result_totals ?result)"
    if "totals response = Some (t # ts)"
      and "length (metricValues t) = length (metrics_of params)" for t ts
    using that by (simp add: parse_response_def Let_def parse_totals_zipped [OF assms(5,6)])
  ultimately show ?thesis
    by blast
qed

text \<open>The amended C3 at the default metrics and a row with two values.\<close>

theorem queryGA4_zips_distinct_metrics_by_position_witness:
  "getClient example_env fresh_state = (Inr example_client, ready_state) \<and>
   example_env ''GA4_PROPERTY_ID'' = Some ''123456'' \<and>
   answering_report two_values_response example_client (build_request ''123456'' all_defaults)
     = Inr two_values_response \<and>
   metrics_of all_defaults = [''totalUsers'', ''sessions''] \<and>
   rows_or_empty two_values_response = [two_values_row] \<and>
   (\<exists>result.
      fst (queryGA4 (getClient example_env) example_env (answering_report two_values_response)
             all_defaults fresh_state) = Inr result \<and>
      zipped_by_position [''totalUsers'', ''sessions''] (metricValues two_values_row)
        (result_rows result ! 0) \<and>
      zipped_by_position [''totalUsers'', ''sessions''] (metricValues two_values_row)
        (result_totals result))"
proof -
  have answers: "answering_report two_values_response example_client
                   (build_request ''123456'' all_defaults) = Inr two_values_response"
    by (simp add: answering_report_def)
  have mets: "metrics_of all_defaults = [''totalUsers'', ''sessions'']"
    by (simp add: metrics_of_def all_defaults_def)
  have rows: "rows_or_empty two_values_response = [two_values_row]"
    by (simp add: rows_or_empty_def two_values_response_def)
  have tot: "totals two_values_response = Some [two_values_row]"
    by (simp add: two_values_response_def)
  have len: "length (metricValues two_values_row) = 2"
    by (simp add: two_values_row_def)
  have "distinct (metrics_of all_defaults)" and "''__proto__'' \<notin> set (metrics_of all_defaults)"
    by (simp_all add: mets)
  from queryGA4_zips_distinct_metrics_by_position
         [where client_of = "getClient example_env" and st = fresh_state and env = example_env
            and runReport = "answering_report two_values_response" and params = all_defaults,
          OF example_client_ready example_property example_property_set answers this]
  obtain result where
    "fst (queryGA4 (getClient example_env) example_env (answering_report two_values_response)
            all_defaults fresh_state) = Inr result"
    "zipped_by_position [''totalUsers'', ''sessions''] (metricValues two_values_row)
       (result_rows result ! 0)"
    "zipped_by_position [''totalUsers'', ''sessions''] (metricValues two_values_row)
       (result_totals result)"
    using mets rows tot len by auto
  then show ?thesis
    using example_client_ready example_property answers mets rows by blast
qed



section \<open>Properties of the Query Interpreter\<close>

subsection \<open>What the regular expression matches\<close>

lemma nesting_without_braces:
  "CHR ''{'' \<notin> set b \<Longrightarrow> CHR ''}'' \<notin> set b \<Longrightarrow> nesting d b = Some d"
  by (induction b) auto

lemma balanced_simple:
  assumes "CHR ''{'' \<notin> set b" and "CHR ''}'' \<notin> set b"
  shows "balanced_braces (CHR ''{'' # b @ [CHR ''}''])"
  using nesting_without_braces [OF assms] by (simp add: balanced_braces_def)

lemma brace_match_Some_iff:
  "brace_match t \<noteq> None \<longleftrightarrow> CHR ''}'' \<in> set (dropWhile (\<lambda>c. c \<noteq> CHR ''{'') t)"
  by (simp add: brace_match_def Let_def del: set_dropWhileD)

lemma dropWhile_open:
  "dropWhile (\<lambda>c. c \<noteq> CHR ''{'') t = [] \<or>
   (\<exists>r. dropWhile (\<lambda>c. c \<noteq> CHR ''{'') t = CHR ''{'' # r)"
  by (induction t) auto

lemma open_then_close:
  assumes "CHR ''}'' \<in> set (dropWhile (\<lambda>c. c \<noteq> CHR ''{'') t)"
  shows "\<exists>pre mid post. t = pre @ CHR ''{'' # mid @ CHR ''}'' # post"
proof -
  let ?rest = "dropWhile (\<lambda>c. c \<noteq> CHR ''{'') t"
  from assms dropWhile_open [of t] obtain r where r: "?rest = CHR ''{'' # r"
    by (cases ?rest) auto
  with assms have "CHR ''}'' \<in> set r" by auto
  from split_list [OF this] obtain mid post where "r = mid @ CHR ''}'' # post"
    by blast
  with r have "takeWhile (\<lambda>c. c \<noteq> CHR ''{'') t @ ?rest
                 = takeWhile (\<lambda>c. c \<noteq> CHR ''{'') t @ CHR ''{'' # mid @ CHR ''}'' # post"
    by simp
  then have "t = takeWhile (\<lambda>c. c \<noteq> CHR ''{'') t @ CHR ''{'' # mid @ CHR ''}'' # post"
    by simp
  then show ?thesis by blast
qed

lemma innermost_pair:
  assumes "t = pre @ CHR ''{'' # mid @ CHR ''}'' # post"
  shows "has_balanced_substring t"
proof -
  have "CHR ''}'' \<in> set (mid @ CHR ''}'' # post)" by simp
  from split_list_first [OF this]
  obtain m1 rest where m1: "mid @ CHR ''}'' # post = m1 @ CHR ''}'' # rest"
    and first: "CHR ''}'' \<notin> set m1"
    by blast
  have "CHR ''{'' \<in> set (CHR ''{'' # m1)" by simp
  from split_list_last [OF this]
  obtain a b where ab: "CHR ''{'' # m1 = a @ CHR ''{'' # b" and lst: "CHR ''{'' \<notin> set b"
    by blast
  have "set b \<subseteq> set m1"
    using ab by (cases a) auto
  with first have "CHR ''}'' \<notin> set b" by auto
  with lst have bal: "balanced_braces (CHR ''{'' # b @ [CHR ''}''])"
    by (rule balanced_simple)
  have "t = pre @ (CHR ''{'' # m1) @ CHR ''}'' # rest"
    using assms m1 by simp
  also have "\<dots> = (pre @ a) @ (CHR ''{'' # b @ [CHR ''}'']) @ rest"
    by (simp add: ab)
  finally have "sublist (CHR ''{'' # b @ [CHR ''}'']) t"
    unfolding sublist_def by blast
  with bal show ?thesis
    unfolding has_balanced_substring_def by blast
qed

lemma balanced_has_pair:
  assumes "balanced_braces s"
  shows "\<exists>mid. s = CHR ''{'' # mid @ [CHR ''}'']"
proof (cases s)
  case Nil
  with assms show ?thesis by (simp add: balanced_braces_def)
next
  case (Cons c r)
  with assms have "c = CHR ''{''" "r \<noteq> []" "last r = CHR ''}''"
    by (simp_all add: balanced_braces_def)
  then have "s = CHR ''{'' # butlast r @ [CHR ''}'']"
    using Cons append_butlast_last_id [of r] by simp
  then show ?thesis by blast
qed

lemma pair_is_matched:
  assumes "t = pre @ CHR ''{'' # mid @ CHR ''}'' # post"
  shows "brace_match t \<noteq> None"
proof -
  let ?P = "\<lambda>c. c \<noteq> CHR ''{''"
  have "CHR ''}'' \<in> set (dropWhile ?P t)"
  proof (cases "CHR ''{'' \<in> set pre")
    case True
    then have "dropWhile ?P t = dropWhile ?P pre @ CHR ''{'' # mid @ CHR ''}'' # post"
      unfolding assms by (intro dropWhile_append1) auto
    then show ?thesis by simp
  next
    case False
    then have "dropWhile ?P t = dropWhile ?P (CHR ''{'' # mid @ CHR ''}'' # post)"
      unfolding assms by (intro dropWhile_append2) auto
    then show ?thesis by simp
  qed
  then show ?thesis by (simp only: brace_match_Some_iff)
qed

text \<open>The regular expression finds a match exactly in the texts that have a balanced
  brace group.\<close>

lemma brace_match_iff_balanced:
  "brace_match t \<noteq> None \<longleftrightarrow> has_balanced_substring t"
proof
  assume "brace_match t \<noteq> None"
  then show "has_balanced_substring t"
    unfolding brace_match_Some_iff using open_then_close innermost_pair by blast
next
  assume "has_balanced_substring t"
  then obtain s where "sublist s t" "balanced_braces s"
    by (auto simp: has_balanced_substring_def)
  from this(1) obtain pre post where "t = pre @ s @ post"
    unfolding sublist_def by blast
  moreover from balanced_has_pair [OF \<open>balanced_braces s\<close>]
  obtain mid where "s = CHR ''{'' # mid @ [CHR ''}'']"
    by blast
  ultimately have "t = pre @ CHR ''{'' # mid @ CHR ''}'' # post" by simp
  then show "brace_match t \<noteq> None" by (rule pair_is_matched)
qed

text \<open>What the match is: the part of the text from its first opening brace to its last closing brace.\<close>

lemma brace_match_shape:
  assumes "brace_match t = Some m"
  shows "\<exists>pre mid post. t = pre @ m @ post \<and> m = CHR ''{'' # mid @ [CHR ''}'']
           \<and> CHR ''{'' \<notin> set pre \<and> CHR ''}'' \<notin> set post"
proof -
  let ?P = "\<lambda>c. c \<noteq> CHR ''{''" and ?Q = "\<lambda>c. c \<noteq> CHR ''}''"
  let ?rest = "dropWhile ?P t"
  from assms have close: "CHR ''}'' \<in> set ?rest" and m: "m = rev (dropWhile ?Q (rev ?rest))"
    by (auto simp: brace_match_def Let_def split: if_splits)
  with dropWhile_open [of t] obtain r where r: "?rest = CHR ''{'' # r"
    by (cases ?rest) auto
  with close have "CHR ''}'' \<in> set r" by auto
  from split_list_last [OF this]
  obtain mid post where mp: "r = mid @ CHR ''}'' # post" and post: "CHR ''}'' \<notin> set post"
    by blast
  have "dropWhile ?Q (rev ?rest) = CHR ''}'' # rev mid @ [CHR ''{'']"
  proof -
    have "rev ?rest = rev post @ (CHR ''}'' # rev mid @ [CHR ''{''])"
      by (simp add: r mp)
    moreover have "dropWhile ?Q (rev post @ (CHR ''}'' # rev mid @ [CHR ''{'']))
                     = dropWhile ?Q (CHR ''}'' # rev mid @ [CHR ''{''])"
      using post by (intro dropWhile_append2) auto
    ultimately show ?thesis by simp
  qed
  then have m': "m = CHR ''{'' # mid @ [CHR ''}'']"
    by (simp add: m)
  have "t = takeWhile ?P t @ ?rest"
    by simp
  then have "t = takeWhile ?P t @ m @ post"
    by (simp add: r mp m')
  moreover have "CHR ''{'' \<notin> set (takeWhile ?P t)"
    by (auto dest: set_takeWhileD)
  ultimately show ?thesis
    using m' post by blast
qed

text \<open>Conversely, the text between the first opening brace and the last closing brace is
  the match.\<close>

lemma brace_match_greedy:
  assumes "t = pre @ CHR ''{'' # mid @ CHR ''}'' # post"
    and "CHR ''{'' \<notin> set pre"
    and "CHR ''}'' \<notin> set post"
  shows "brace_match t = Some (CHR ''{'' # mid @ [CHR ''}''])"
proof -
  let ?P = "\<lambda>c. c \<noteq> CHR ''{''" and ?Q = "\<lambda>c. c \<noteq> CHR ''}''"
  have "dropWhile ?P t = dropWhile ?P (CHR ''{'' # mid @ CHR ''}'' # post)"
    unfolding assms(1) using assms(2) by (intro dropWhile_append2) auto
  then have rest: "dropWhile ?P t = CHR ''{'' # mid @ CHR ''}'' # post"
    by simp
  have "rev (CHR ''{'' # mid @ CHR ''}'' # post) = rev post @ (CHR ''}'' # rev mid @ [CHR ''{''])"
    by simp
  moreover have "dropWhile ?Q (rev post @ (CHR ''}'' # rev mid @ [CHR ''{'']))
                   = dropWhile ?Q (CHR ''}'' # rev mid @ [CHR ''{''])"
    using assms(3) by (intro dropWhile_append2) auto
  ultimately have "rev (dropWhile ?Q (rev (CHR ''{'' # mid @ CHR ''}'' # post)))
                     = CHR ''{'' # mid @ [CHR ''}'']"
    by simp
  then show ?thesis
    by (simp add: brace_match_def rest)
qed

subsection \<open>The client and the two outcomes of the completion call\<close>

text \<open>Once there is a client it stays cached; looking for one sends nothing.\<close>

lemma groq_getClient_cached:
  "groq_getClient new_Groq env st = (Inr groq, st') \<Longrightarrow> groq_handle st' = Some groq"
  by (auto simp: groq_getClient_def split: option.splits sum.splits)

lemma groq_getClient_again:
  "groq_handle st = Some groq \<Longrightarrow> groq_getClient new_Groq env st = (Inr groq, st)"
  by (simp add: groq_getClient_def)

lemma groq_getClient_sent:
  "groq_getClient new_Groq env st = (outcome, st') \<Longrightarrow> groq_sent st' = groq_sent st"
  by (auto simp: groq_getClient_def split: option.splits sum.splits)

lemma gemini_getClient_sent:
  "gemini_getClient new_GoogleGenAI env st = (outcome, st') \<Longrightarrow> gemini_sent st' = gemini_sent st"
  by (auto simp: gemini_getClient_def split: option.splits sum.splits)

text \<open>Without a client \<open>processQuery\<close> throws what the constructor threw, and sends
  nothing.\<close>

lemma groq_processQuery_without_client:
  "groq_getClient new_Groq env st = (Inl e, st') \<Longrightarrow>
   groq_processQuery new_Groq env JSON_parse create message history isFormatting st = (Inl e, st')"
  by (simp add: groq_processQuery_def)

lemma groq_processQuery_without_key:
  "groq_processQuery groq_sdk keyless_env JSON_parse create message history isFormatting groq_fresh
     = (Inl (Error ''The GROQ_API_KEY environment variable is missing or empty''), groq_fresh)"
  by (simp add: groq_processQuery_def groq_getClient_def groq_sdk_def keyless_env_def
      groq_fresh_def)

text \<open>With a client, \<open>processQuery\<close> hands the request to the completion API, logs it, and
  returns a value whatever the API does.\<close>

lemma groq_processQuery_run:
  assumes "groq_getClient new_Groq env st = (Inr groq, st')"
  shows "groq_processQuery new_Groq env JSON_parse create message history isFormatting st =
           (Inr (case create groq (groq_request_of env message history isFormatting) of
                   Inr response \<Rightarrow>
                     if isFormatting then text_result (groq_text response)
                     else parse_model_output JSON_parse (groq_text response)
                 | Inl err \<Rightarrow> groq_failure err),
            st'\<lparr>groq_sent := groq_sent st' @ [groq_request_of env message history isFormatting]\<rparr>)"
  using assms by (simp add: groq_processQuery_def Let_def split: sum.split)

lemma gemini_processQuery_run:
  assumes "gemini_getClient new_GoogleGenAI env st = (Inr ai, st')"
  shows "gemini_processQuery new_GoogleGenAI env JSON_parse generateContent message history
           isFormatting st =
           (Inr (case generateContent ai (gemini_request_of env message history isFormatting) of
                   Inr response \<Rightarrow>
                     if isFormatting then text_result (gemini_text response)
                     else parse_model_output JSON_parse (gemini_text response)
                 | Inl err \<Rightarrow> gemini_failure err),
            st'\<lparr>gemini_sent :=
                  gemini_sent st' @ [gemini_request_of env message history isFormatting]\<rparr>)"
  using assms by (simp add: gemini_processQuery_def Let_def split: sum.split)

lemma groq_processQuery_answered:
  assumes "groq_getClient new_Groq env st = (Inr groq, st')"
    and "create groq (groq_request_of env message history False) = Inr response"
  shows "fst (groq_processQuery new_Groq env JSON_parse create message history False st)
           = Inr (parse_model_output JSON_parse (groq_text response))"
  using assms(2) by (simp add: groq_processQuery_run [OF assms(1)])

lemma gemini_processQuery_answered:
  assumes "gemini_getClient new_GoogleGenAI env st = (Inr ai, st')"
    and "generateContent ai (gemini_request_of env message history False) = Inr response"
  shows "fst (gemini_processQuery new_GoogleGenAI env JSON_parse generateContent message history
                False st)
           = Inr (parse_model_output JSON_parse (gemini_text response))"
  using assms(2) by (simp add: gemini_processQuery_run [OF assms(1)])

lemma example_groq_ready:
  "groq_getClient groq_sdk example_env groq_fresh = (Inr example_groq, groq_ready)"
  by (simp add: groq_getClient_def groq_sdk_def example_env_def groq_fresh_def groq_ready_def
      example_groq_def)

lemma example_gemini_ready:
  "gemini_getClient gemini_sdk example_env gemini_fresh = (Inr example_gemini, gemini_ready)"
  by (simp add: gemini_getClient_def gemini_sdk_def example_env_def gemini_fresh_def
      gemini_ready_def example_gemini_def)

lemma answering_completion_text:
  "\<exists>response. answering_completion t client request = Inr response \<and> groq_text response = t"
  by (simp add: answering_completion_def groq_text_def)

subsection \<open>Failures of the completion API\<close>

text \<open>
  C2 (as the claim states it, refuted). With the key of the Groq API set and a client
  constructed, when the completion call fails with the text \<open>Connection error.\<close>, the
  error message \<open>processQuery\<close> returns ends with that very text.
\<close>

theorem processQuery_leaks_provider_text:
  "groq_getClient groq_sdk example_env groq_fresh = (Inr example_groq, groq_ready) \<and>
   failing_completion ''Connection error.'' example_groq
       (groq_request_of example_env question [] False)
     = Inl (Error ''Connection error.'') \<and>
   fst (groq_processQuery groq_sdk example_env (parse_listed [])
          (failing_completion ''Connection error.'') question [] False groq_fresh)
     = Inr (JObject [(''error'', JString ''AI processing failed: Connection error.'')]) \<and>
   str_includes ''AI processing failed: Connection error.'' ''Connection error.''"
  by (simp add: example_groq_ready groq_processQuery_run [OF example_groq_ready]
      failing_completion_def groq_failure_def error_result_def)

text \<open>
  C2 (amended). When a client exists and the completion call fails, \<open>processQuery\<close> does
  not throw: it returns an object with an \<open>error\<close> field. The message is the fixed text
  about the API key when the failure text contains \<open>API\<close> or \<open>key\<close> (Groq; \<open>API_KEY\<close> or
  \<open>api key\<close> for Gemini), and otherwise \<open>AI processing failed:\<close> followed by the failure
  text of the provider.
\<close>

theorem processQuery_failure_classified:
  "(groq_getClient new_Groq env st = (Inr groq, st') \<longrightarrow>
    create groq (groq_request_of env message history isFormatting) = Inl err \<longrightarrow>
    fst (groq_processQuery new_Groq env JSON_parse create message history isFormatting st) =
      Inr (JObject [(''error'', JString
        (if str_includes (error_message err) ''API'' \<or> str_includes (error_message err) ''key''
         then ''Groq API key not configured. Please set GROQ_API_KEY in .env''
         else ''AI processing failed: '' @ error_message err))])) \<and>
   (gemini_getClient new_GoogleGenAI env gt = (Inr ai, gt') \<longrightarrow>
    generateContent ai (gemini_request_of env message history isFormatting) = Inl gerr \<longrightarrow>
    fst (gemini_processQuery new_GoogleGenAI env JSON_parse generateContent message history
           isFormatting gt) =
      Inr (JObject [(''error'', JString
        (if str_includes (error_message gerr) ''API_KEY'' \<or> str_includes (error_message gerr) ''api key''
         then ''Gemini API key not configured. Please set GEMINI_API_KEY in .env''
         else ''AI processing failed: '' @ error_message gerr))]))"
  by (simp add: groq_processQuery_run gemini_processQuery_run groq_failure_def
      gemini_failure_def error_result_def)

text \<open>The amended C2, with both keys set, at an authentication failure of Groq and a
  transport failure of Gemini.\<close>

theorem processQuery_failure_classified_witness:
  "groq_getClient groq_sdk example_env groq_fresh = (Inr example_groq, groq_ready) \<and>
   gemini_getClient gemini_sdk example_env gemini_fresh = (Inr example_gemini, gemini_ready) \<and>
   fst (groq_processQuery groq_sdk example_env (parse_listed [])
          (failing_completion ''401 Invalid API Key'') question [] False groq_fresh)
     = Inr (JObject [(''error'', JString ''Groq API key not configured. Please set GROQ_API_KEY in .env'')]) \<and>
   fst (gemini_processQuery gemini_sdk example_env (parse_listed [])
          (failing_generation ''fetch failed'') question [] False gemini_fresh)
     = Inr (JObject [(''error'', JString ''AI processing failed: fetch failed'')])"
  using processQuery_failure_classified
          [where new_Groq = groq_sdk and new_GoogleGenAI = gemini_sdk
             and create = "failing_completion ''401 Invalid API Key''"
             and generateContent = "failing_generation ''fetch failed''"
             and env = example_env and st = groq_fresh and gt = gemini_fresh
             and groq = example_groq and st' = groq_ready
             and ai = example_gemini and gt' = gemini_ready
             and message = question and history = "[]"
             and isFormatting = False and err = "Error ''401 Invalid API Key''"
             and gerr = "Error ''fetch failed''" and JSON_parse = "parse_listed []"]
        example_groq_ready example_gemini_ready
  by (simp add: failing_completion_def failing_generation_def)

subsection \<open>The history that is forwarded\<close>

lemma slice_last_suffix:
  "\<exists>older. xs = older @ slice_last n xs \<and> length (slice_last n xs) = min n (length xs)"
proof -
  have "xs = take (length xs - n) xs @ slice_last n xs"
    by (simp add: slice_last_def)
  moreover have "length (slice_last n xs) = min n (length xs)"
    by (simp add: slice_last_def)
  ultimately show ?thesis by blast
qed

lemma groq_processQuery_sent:
  assumes "groq_getClient new_Groq env st = (Inr groq, st')"
  shows "groq_sent (snd (groq_processQuery new_Groq env JSON_parse create message history
                           isFormatting st))
           = groq_sent st @ [groq_request_of env message history isFormatting]"
  using groq_getClient_sent [OF assms] by (simp add: groq_processQuery_run [OF assms])

lemma gemini_processQuery_sent:
  assumes "gemini_getClient new_GoogleGenAI env st = (Inr ai, st')"
  shows "gemini_sent (snd (gemini_processQuery new_GoogleGenAI env JSON_parse generateContent
                             message history isFormatting st))
           = gemini_sent st @ [gemini_request_of env message history isFormatting]"
  using gemini_getClient_sent [OF assms] by (simp add: gemini_processQuery_run [OF assms])

text \<open>
  C7. When a client exists, \<open>processQuery\<close> sends one request, and its turns are: (the
  system turn, for Groq,) the most recent eight turns of the history, all of them when
  the history has eight or fewer, oldest first and in their order, each with its content
  and its role reduced to the two roles of the provider, and last the new message as a
  user turn.
\<close>

theorem processQuery_forwards_recent_history:
  "\<exists>older recent.
     history = older @ recent \<and> length recent = min 8 (length history) \<and>
     (groq_getClient new_Groq env st = (Inr groq, st') \<longrightarrow>
      (\<exists>request.
         groq_sent (snd (groq_processQuery new_Groq env JSON_parse create message history
                           isFormatting st))
           = groq_sent st @ [request] \<and>
         messages request =
           \<lparr> role = ''system'',
             content = (if isFormatting then FORMAT_SYSTEM_PROMPT else SYSTEM_PROMPT) \<rparr>
           # map (\<lambda>m. \<lparr> role = (if role m = ''user'' then ''user'' else ''assistant''),
                         content = content m \<rparr>) recent
           @ [\<lparr> role = ''user'', content = message \<rparr>])) \<and>
     (gemini_getClient new_GoogleGenAI env gt = (Inr ai, gt') \<longrightarrow>
      (\<exists>request.
         gemini_sent (snd (gemini_processQuery new_GoogleGenAI env JSON_parse generateContent
                             message history isFormatting gt))
           = gemini_sent gt @ [request] \<and>
         contents request =
           map (\<lambda>m. \<lparr> content_role = (if role m = ''user'' then ''user'' else ''model''),
                       parts = [\<lparr> part_text = content m \<rparr>] \<rparr>) recent
           @ [\<lparr> content_role = ''user'', parts = [\<lparr> part_text = message \<rparr>] \<rparr>]))"
proof -
  from slice_last_suffix [of history 8] obtain older where
    older: "history = older @ slice_last 8 history"
    "length (slice_last 8 history) = min 8 (length history)"
    by blast
  have groq: "messages (groq_request_of env message history isFormatting) =
          \<lparr> role = ''system'',
            content = (if isFormatting then FORMAT_SYSTEM_PROMPT else SYSTEM_PROMPT) \<rparr>
          # map (\<lambda>m. \<lparr> role = (if role m = ''user'' then ''user'' else ''assistant''),
                        content = content m \<rparr>) (slice_last 8 history)
          @ [\<lparr> role = ''user'', content = message \<rparr>]"
    by (simp add: groq_request_of_def groq_messages_def)
  have gemini: "contents (gemini_request_of env message history isFormatting) =
          map (\<lambda>m. \<lparr> content_role = (if role m = ''user'' then ''user'' else ''model''),
                      parts = [\<lparr> part_text = content m \<rparr>] \<rparr>) (slice_last 8 history)
          @ [\<lparr> content_role = ''user'', parts = [\<lparr> part_text = message \<rparr>] \<rparr>]"
    by (simp add: gemini_request_of_def gemini_contents_def)
  show ?thesis
    apply (rule exI [of _ older])
    apply (rule exI [of _ "slice_last 8 history"])
    apply (intro conjI impI)
       apply (rule older(1))
      apply (rule older(2))
     apply (rule exI [of _ "groq_request_of env message history isFormatting"])
     apply (rule conjI [OF groq_processQuery_sent groq])
     apply assumption
    apply (rule exI [of _ "gemini_request_of env message history isFormatting"])
    apply (rule conjI [OF gemini_processQuery_sent gemini])
    apply assumption
    done
qed

text \<open>C7 at a history of ten turns, with the key set: the last eight are forwarded.\<close>

theorem processQuery_forwards_recent_history_witness:
  "length ten_turns = 10 \<and>
   groq_getClient groq_sdk example_env groq_fresh = (Inr example_groq, groq_ready) \<and>
   (\<exists>request.
      groq_sent (snd (groq_processQuery groq_sdk example_env (parse_listed [])
                        (answering_completion plain_answer) question ten_turns False groq_fresh))
        = [request] \<and>
      messages request =
        [\<lparr> role = ''system'', content = SYSTEM_PROMPT \<rparr>,
         \<lparr> role = ''user'', content = ''q2'' \<rparr>, \<lparr> role = ''assistant'', content = ''a2'' \<rparr>,
         \<lparr> role = ''user'', content = ''q3'' \<rparr>, \<lparr> role = ''assistant'', content = ''a3'' \<rparr>,
         \<lparr> role = ''user'', content = ''q4'' \<rparr>, \<lparr> role = ''assistant'', content = ''a4'' \<rparr>,
         \<lparr> role = ''user'', content = ''q5'' \<rparr>, \<lparr> role = ''assistant'', content = ''a5'' \<rparr>,
         \<lparr> role = ''user'', content = question \<rparr>])"
proof -
  have len: "length ten_turns = 10"
    by (simp add: ten_turns_def)
  from processQuery_forwards_recent_history
         [where history = ten_turns and env = example_env and JSON_parse = "parse_listed []"
            and new_Groq = groq_sdk and groq = example_groq and st' = groq_ready
            and create = "answering_completion plain_answer" and message = question
            and isFormatting = False and st = groq_fresh
            and new_GoogleGenAI = gemini_sdk and ai = example_gemini and gt' = gemini_ready
            and generateContent = "failing_generation []" and gt = gemini_fresh]
       example_groq_ready example_gemini_ready
  obtain older recent request where
    split: "ten_turns = older @ recent" and n: "length recent = min 8 (length ten_turns)"
    and sent: "groq_sent (snd (groq_processQuery groq_sdk example_env (parse_listed [])
                 (answering_completion plain_answer) question ten_turns False groq_fresh))
               = groq_sent groq_fresh @ [request]"
    and msgs: "messages request =
                 \<lparr> role = ''system'', content = (if False then FORMAT_SYSTEM_PROMPT else SYSTEM_PROMPT) \<rparr>
                 # map (\<lambda>m. \<lparr> role = (if role m = ''user'' then ''user'' else ''assistant''),
                               content = content m \<rparr>) recent
                 @ [\<lparr> role = ''user'', content = question \<rparr>]"
    by (elim exE conjE impE) (assumption | rule that)+
  have "length older + length recent = 10"
    using arg_cong [OF split, of length] len by simp
  moreover have "length recent = 8"
    using n len by simp
  ultimately have "length older = 2"
    by simp
  moreover have "drop (length older) ten_turns = recent"
    by (subst split) simp
  ultimately have "recent = drop 2 ten_turns"
    by simp
  then have "recent =
         [\<lparr> role = ''user'', content = ''q2'' \<rparr>, \<lparr> role = ''assistant'', content = ''a2'' \<rparr>,
         \<lparr> role = ''user'', content = ''q3'' \<rparr>, \<lparr> role = ''assistant'', content = ''a3'' \<rparr>,
         \<lparr> role = ''user'', content = ''q4'' \<rparr>, \<lparr> role = ''assistant'', content = ''a4'' \<rparr>,
         \<lparr> role = ''user'', content = ''q5'' \<rparr>, \<lparr> role = ''assistant'', content = ''a5'' \<rparr>]"
    by (simp add: ten_turns_def)
  with msgs sent len example_groq_ready show ?thesis
    by (simp add: groq_fresh_def)
qed

subsection \<open>Answers that are not a query\<close>

text \<open>
  C4. When the answer of the model contains no balanced brace group, \<open>processQuery\<close> (not
  formatting) returns the object \<open>{ type: "text", content }\<close> whose content is the whole
  answer, unchanged.
\<close>

theorem processQuery_text_without_braces:
  assumes "groq_getClient new_Groq env st = (Inr groq, st')"
    and "create groq (groq_request_of env message history False) = Inr response"
    and "\<not> has_balanced_substring (groq_text response)"
  shows "fst (groq_processQuery new_Groq env JSON_parse create message history False st)
           = Inr (JObject [(''type'', JString ''text''), (''content'', JString (groq_text response))])"
proof -
  from assms(3) have "brace_match (groq_text response) = None"
    using brace_match_iff_balanced [of "groq_text response"] by simp
  then show ?thesis
    by (simp add: groq_processQuery_answered [where create = create, OF assms(1,2)]
        parse_model_output_def text_result_def)
qed

text \<open>C4 at an answer in plain words, with the key set.\<close>

theorem processQuery_text_without_braces_witness:
  "groq_getClient groq_sdk example_env groq_fresh = (Inr example_groq, groq_ready) \<and>
   \<not> has_balanced_substring plain_answer \<and>
   fst (groq_processQuery groq_sdk example_env (parse_listed []) (answering_completion plain_answer)
          question [] False groq_fresh)
     = Inr (JObject [(''type'', JString ''text''), (''content'', JString plain_answer)])"
proof -
  obtain response where
    r: "answering_completion plain_answer example_groq
          (groq_request_of example_env question [] False) = Inr response"
    and t: "groq_text response = plain_answer"
    using answering_completion_text by blast
  have "brace_match plain_answer = None"
    by (simp add: brace_match_def plain_answer_def)
  then have none: "\<not> has_balanced_substring plain_answer"
    using brace_match_iff_balanced [of plain_answer] by simp
  from processQuery_text_without_braces
         [where create = "answering_completion plain_answer" and JSON_parse = "parse_listed []",
          OF example_groq_ready r]
       none t example_groq_ready
  show ?thesis by simp
qed

text \<open>
  C5. When the part of the answer from its first opening brace to its last closing brace
  is not valid JSON (\<open>JSON.parse\<close> throws), \<open>processQuery\<close> (not formatting) does not throw:
  it returns the object \<open>{ type: "text", content }\<close> with the whole answer.
\<close>

theorem processQuery_text_on_invalid_json:
  assumes "groq_getClient new_Groq env st = (Inr groq, st')"
    and "create groq (groq_request_of env message history False) = Inr response"
    and "groq_text response = pre @ CHR ''{'' # mid @ CHR ''}'' # post"
    and "CHR ''{'' \<notin> set pre"
    and "CHR ''}'' \<notin> set post"
    and "JSON_parse (CHR ''{'' # mid @ [CHR ''}'']) = Inl parseErr"
  shows "fst (groq_processQuery new_Groq env JSON_parse create message history False st)
           = Inr (JObject [(''type'', JString ''text''), (''content'', JString (groq_text response))])"
  using assms(6) brace_match_greedy [OF assms(3-5)]
  by (simp add: groq_processQuery_answered [where create = create, OF assms(1,2)]
      parse_model_output_def text_result_def)

text \<open>C5 at an answer whose braces hold unquoted keys, with the key set.\<close>

theorem processQuery_text_on_invalid_json_witness:
  "groq_getClient groq_sdk example_env groq_fresh = (Inr example_groq, groq_ready) \<and>
   broken_answer = ''Here is the query: '' @ ''{metrics: sessions}'' @ '' for last week'' \<and>
   parse_listed [] ''{metrics: sessions}'' = Inl (Error ''Unexpected token in JSON'') \<and>
   fst (groq_processQuery groq_sdk example_env (parse_listed []) (answering_completion broken_answer)
          question [] False groq_fresh)
     = Inr (JObject [(''type'', JString ''text''), (''content'', JString broken_answer)])"
proof -
  obtain response where
    r: "answering_completion broken_answer example_groq
          (groq_request_of example_env question [] False) = Inr response"
    and t: "groq_text response = broken_answer"
    using answering_completion_text by blast
  have shape: "groq_text response
                 = ''Here is the query: '' @ CHR ''{'' # ''metrics: sessions'' @ CHR ''}'' # '' for last week''"
    by (simp add: t broken_answer_def)
  have p: "parse_listed [] (CHR ''{'' # ''metrics: sessions'' @ [CHR ''}''])
             = Inl (Error ''Unexpected token in JSON'')"
    by (simp add: parse_listed_def)
  from processQuery_text_on_invalid_json
         [where create = "answering_completion broken_answer" and JSON_parse = "parse_listed []",
          OF example_groq_ready r shape _ _ p] t p example_groq_ready
  show ?thesis
    by (simp add: broken_answer_def)
qed

subsection \<open>The Gemini module parses the answer the same way\<close>

lemma gemini_text_without_braces:
  assumes "gemini_getClient new_GoogleGenAI env st = (Inr ai, st')"
    and "generateContent ai (gemini_request_of env message history False) = Inr response"
    and "\<not> has_balanced_substring (gemini_text response)"
  shows "fst (gemini_processQuery new_GoogleGenAI env JSON_parse generateContent message history
                False st)
           = Inr (JObject [(''type'', JString ''text''), (''content'', JString (gemini_text response))])"
proof -
  from assms(3) have "brace_match (gemini_text response) = None"
    using brace_match_iff_balanced [of "gemini_text response"] by simp
  then show ?thesis
    by (simp add: gemini_processQuery_answered [where generateContent = generateContent,
          OF assms(1,2)]
        parse_model_output_def text_result_def)
qed

lemma gemini_text_on_invalid_json:
  assumes "gemini_getClient new_GoogleGenAI env st = (Inr ai, st')"
    and "generateContent ai (gemini_request_of env message history False) = Inr response"
    and "gemini_text response = pre @ CHR ''{'' # mid @ CHR ''}'' # post"
    and "CHR ''{'' \<notin> set pre"
    and "CHR ''}'' \<notin> set post"
  shows "fst (gemini_processQuery new_GoogleGenAI env JSON_parse generateContent message history
                False st)
           = Inr (case JSON_parse (CHR ''{'' # mid @ [CHR ''}'']) of
                    Inr parsed \<Rightarrow> parsed
                  | Inl parseErr \<Rightarrow>
                      JObject [(''type'', JString ''text''),
                               (''content'', JString (gemini_text response))])"
  using brace_match_greedy [OF assms(3-5)]
  by (simp add: gemini_processQuery_answered [where generateContent = generateContent,
        OF assms(1,2)]
      parse_model_output_def text_result_def split: sum.split)

section \<open>Properties of the orchestrator\<close>

text \<open>
  C8. When the interpreter returns an object with a truthy \<open>error\<close> field or with the type
  \<open>text\<close>, the handler answers at once with the text payload that carries the error or the
  content: the call to the interpreter is the only call it makes, and the state of the
  executor is untouched.
\<close>

theorem chat_handler_short_circuit:
  assumes "body_message b = JString message"
    and "message \<noteq> []"
    and "length message \<le> 2000"
    and "processQuery message (history_of b) False a = (Inr result, a1)"
    and "truthy (get_property result ''error'') \<or> get_property result ''type'' = JString ''text''"
  shows "chat_handler env JSON_stringify processQuery run_query b (a, g) =
           (\<lparr> status = 200,
              body = JObject [(''type'', JString ''text''),
                              (''content'',
                                 if truthy (get_property result ''error'')
                                 then get_property result ''error''
                                 else get_property result ''content'')] \<rparr>,
            [Call_processQuery message (history_of b) False], a1, g)"
proof -
  from assms(5) have present: "\<not> nullish result"
    by (auto simp: nullish_def)
  show ?thesis
  proof (cases "truthy (get_property result ''error'')")
    case True
    with assms(1-4) present show ?thesis
      by (simp add: chat_handler_def Let_def json_response_def)
  next
    case False
    with assms(5) have "get_property result ''type'' = JString ''text''"
      by simp
    with False assms(1-4) present show ?thesis
      by (simp add: chat_handler_def Let_def json_response_def)
  qed
qed

text \<open>C8 at the refusal \<open>{"type": "text", "content": "I can't answer that"}\<close>, with the
  key set.\<close>

theorem chat_handler_short_circuit_witness:
  "groq_getClient groq_sdk example_env groq_fresh = (Inr example_groq, groq_ready) \<and>
   fst (groq_processQuery groq_sdk example_env (parse_listed [(refusal_json, refusal_object)])
          (answering_completion refusal_json) question [] False groq_fresh)
     = Inr (JObject [(''type'', JString ''text''), (''content'', JString ''I can't answer that'')]) \<and>
   (\<exists>a1.
      chat_handler example_env (stringify_listed [])
        (groq_processQuery groq_sdk example_env (parse_listed [(refusal_json, refusal_object)])
           (answering_completion refusal_json))
        (answering_executor report_data) question_body (groq_fresh, fresh_state)
      = (\<lparr> status = 200,
           body = JObject [(''type'', JString ''text''),
                           (''content'', JString ''I can't answer that'')] \<rparr>,
         [Call_processQuery question [] False], a1, fresh_state))"
proof -
  let ?parse = "parse_listed [(refusal_json, refusal_object)]"
  let ?create = "answering_completion refusal_json"
  let ?pq = "groq_processQuery groq_sdk example_env ?parse ?create"
  obtain response where
    r: "?create example_groq (groq_request_of example_env question [] False) = Inr response"
    and t: "groq_text response = refusal_json"
    using answering_completion_text by blast
  have m: "brace_match refusal_json = Some refusal_json"
    by (simp add: brace_match_def refusal_json_def)
  have returned: "fst (?pq question [] False groq_fresh) = Inr refusal_object"
    using groq_processQuery_answered
            [where create = ?create and JSON_parse = ?parse, OF example_groq_ready r] t m
    by (simp add: parse_model_output_def parse_listed_def)
  then have run: "?pq question (history_of question_body) False groq_fresh
                    = (Inr refusal_object, snd (?pq question [] False groq_fresh))"
    by (simp add: history_of_def question_body_def prod_eq_iff)
  have msg: "body_message question_body = JString question" "question \<noteq> []"
    "length question \<le> 2000"
    by (simp_all add: question_body_def question_def)
  have variant: "truthy (get_property refusal_object ''error'')
                   \<or> get_property refusal_object ''type'' = JString ''text''"
    by (simp add: refusal_object_def)
  from chat_handler_short_circuit
         [where processQuery = ?pq and run_query = "answering_executor report_data"
            and env = example_env and JSON_stringify = "stringify_listed []" and g = fresh_state,
          OF msg run variant]
  have "chat_handler example_env (stringify_listed []) ?pq (answering_executor report_data)
          question_body (groq_fresh, fresh_state)
        = (\<lparr> status = 200,
             body = JObject [(''type'', JString ''text''),
                             (''content'', JString ''I can't answer that'')] \<rparr>,
           [Call_processQuery question [] False], snd (?pq question [] False groq_fresh),
           fresh_state)"
    by (simp add: refusal_object_def history_of_def question_body_def)
  with returned example_groq_ready show ?thesis
    by (simp add: refusal_object_def)
qed

text \<open>
  Any other value the interpreter returns goes to the executor: the handler applies the
  executor to that value and to the executor's state, answers with status 500 when the
  executor throws, and otherwise hands the executor's data to the formatter and answers
  with the analytics payload, which carries the formatted content, the data and the value
  itself as the query.
\<close>

lemma chat_handler_proceeds:
  assumes "body_message b = JString message"
    and "message \<noteq> []"
    and "length message \<le> 2000"
    and "processQuery message (history_of b) False a = (Inr parsed, a')"
    and "\<not> nullish parsed"
    and "\<not> truthy (get_property parsed ''error'')"
    and "get_property parsed ''type'' \<noteq> JString ''text''"
  shows "chat_handler env JSON_stringify processQuery run_query b (a, g) =
           (case run_query parsed g of
              (Inl err, g') \<Rightarrow>
                (server_error env err,
                 [Call_processQuery message (history_of b) False, Call_queryGA4 parsed], a', g')
            | (Inr ga4Data, g') \<Rightarrow>
                (case processQuery (format_prompt JSON_stringify message parsed ga4Data) [] True a' of
                   (Inl err, a'') \<Rightarrow>
                     (server_error env err,
                      [Call_processQuery message (history_of b) False, Call_queryGA4 parsed,
                       Call_processQuery (format_prompt JSON_stringify message parsed ga4Data) [] True],
                      a'', g')
                 | (Inr formatted, a'') \<Rightarrow>
                     (if nullish formatted then server_error env (cannot_read formatted ''content'')
                      else json_response
                             (JObject [(''type'', JString ''analytics''),
                                       (''content'',
                                          if truthy (get_property formatted ''content'')
                                          then get_property formatted ''content''
                                          else formatted),
                                       (''rawData'', ga4Data),
                                       (''query'', parsed)]),
                      [Call_processQuery message (history_of b) False, Call_queryGA4 parsed,
                       Call_processQuery (format_prompt JSON_stringify message parsed ga4Data) [] True],
                      a'', g')))"
  using assms
  by (simp add: chat_handler_def Let_def split: prod.split sum.split)

text \<open>
  C9. When a client exists and the part of the answer from its first opening brace to its
  last closing brace parses as JSON, \<open>processQuery\<close> (not formatting) returns the parsed
  value as it is, whatever its fields. When that value has no truthy \<open>error\<close> field and
  not the type \<open>text\<close>, the handler treats it as a query: it applies the executor to it,
  and what the executor returns decides the answer; on success the executor's data goes to
  the formatter, and the payload carries the formatted content, the data, and the parsed
  value as the query.
\<close>

theorem processQuery_returns_parsed_unvalidated:
  assumes "groq_getClient new_Groq env st = (Inr groq, st')"
    and "create groq (groq_request_of env message history False) = Inr response"
    and "groq_text response = pre @ CHR ''{'' # mid @ CHR ''}'' # post"
    and "CHR ''{'' \<notin> set pre"
    and "CHR ''}'' \<notin> set post"
    and "JSON_parse (CHR ''{'' # mid @ [CHR ''}'']) = Inr parsed"
  shows "fst (groq_processQuery new_Groq env JSON_parse create message history False st)
           = Inr parsed \<and>
         (body_message b = JString message \<longrightarrow> message \<noteq> [] \<longrightarrow> length message \<le> 2000 \<longrightarrow>
          history_of b = history \<longrightarrow>
          \<not> nullish parsed \<longrightarrow> \<not> truthy (get_property parsed ''error'') \<longrightarrow>
          get_property parsed ''type'' \<noteq> JString ''text'' \<longrightarrow>
          chat_handler env JSON_stringify (groq_processQuery new_Groq env JSON_parse create)
            run_query b (st, g) =
            (case run_query parsed g of
               (Inl err, g') \<Rightarrow>
                 (server_error env err,
                  [Call_processQuery message history False, Call_queryGA4 parsed],
                  snd (groq_processQuery new_Groq env JSON_parse create message history False st),
                  g')
             | (Inr ga4Data, g') \<Rightarrow>
                 (case groq_processQuery new_Groq env JSON_parse create
                         (format_prompt JSON_stringify message parsed ga4Data) [] True
                         (snd (groq_processQuery new_Groq env JSON_parse create message history
                                 False st)) of
                    (Inl err, a'') \<Rightarrow>
                      (server_error env err,
                       [Call_processQuery message history False, Call_queryGA4 parsed,
                        Call_processQuery (format_prompt JSON_stringify message parsed ga4Data)
                          [] True],
                       a'', g')
                  | (Inr formatted, a'') \<Rightarrow>
                      (if nullish formatted
                       then server_error env (cannot_read formatted ''content'')
                       else json_response
                              (JObject [(''type'', JString ''analytics''),
                                        (''content'',
                                           if truthy (get_property formatted ''content'')
                                           then get_property formatted ''content''
                                           else formatted),
                                        (''rawData'', ga4Data),
                                        (''query'', parsed)]),
                       [Call_processQuery message history False, Call_queryGA4 parsed,
                        Call_processQuery (format_prompt JSON_stringify message parsed ga4Data)
                          [] True],
                       a'', g'))))"
proof -
  let ?pq = "groq_processQuery new_Groq env JSON_parse create"
  have returned: "fst (?pq message history False st) = Inr parsed"
    using assms(6) brace_match_greedy [OF assms(3-5)]
    by (simp add: groq_processQuery_answered [where create = create, OF assms(1,2)]
        parse_model_output_def)
  then have run: "?pq message history False st = (Inr parsed, snd (?pq message history False st))"
    by (simp add: prod_eq_iff)
  show ?thesis
  proof (intro conjI impI)
    show "fst (?pq message history False st) = Inr parsed"
      by (rule returned)
  next
    assume h: "body_message b = JString message" "message \<noteq> []" "length message \<le> 2000"
      "history_of b = history" "\<not> nullish parsed" "\<not> truthy (get_property parsed ''error'')"
      "get_property parsed ''type'' \<noteq> JString ''text''"
    from run h(4) have "?pq message (history_of b) False st
                          = (Inr parsed, snd (?pq message history False st))"
      by simp
    from chat_handler_proceeds
           [where processQuery = ?pq and run_query = run_query and env = env
              and JSON_stringify = JSON_stringify and g = g,
            OF h(1-3) this h(5-7)]
    show "chat_handler env JSON_stringify ?pq run_query b (st, g) =
            (case run_query parsed g of
               (Inl err, g') \<Rightarrow>
                 (server_error env err,
                  [Call_processQuery message history False, Call_queryGA4 parsed],
                  snd (?pq message history False st), g')
             | (Inr ga4Data, g') \<Rightarrow>
                 (case ?pq (format_prompt JSON_stringify message parsed ga4Data) [] True
                         (snd (?pq message history False st)) of
                    (Inl err, a'') \<Rightarrow>
                      (server_error env err,
                       [Call_processQuery message history False, Call_queryGA4 parsed,
                        Call_processQuery (format_prompt JSON_stringify message parsed ga4Data)
                          [] True],
                       a'', g')
                  | (Inr formatted, a'') \<Rightarrow>
                      (if nullish formatted
                       then server_error env (cannot_read formatted ''content'')
                       else json_response
                              (JObject [(''type'', JString ''analytics''),
                                        (''content'',
                                           if truthy (get_property formatted ''content'')
                                           then get_property formatted ''content''
                                           else formatted),
                                        (''rawData'', ga4Data),
                                        (''query'', parsed)]),
                       [Call_processQuery message history False, Call_queryGA4 parsed,
                        Call_processQuery (format_prompt JSON_stringify message parsed ga4Data)
                          [] True],
                       a'', g')))"
      unfolding h(4) .
  qed
qed

text \<open>C9 at the answer \<open>Sure, here you go: {"foo":1}\<close>, with the key set: the object is none
  of the three variants, the executor is applied to it, and its data and the object come
  back in the analytics payload.\<close>

theorem processQuery_returns_parsed_unvalidated_witness:
  "groq_getClient groq_sdk example_env groq_fresh = (Inr example_groq, groq_ready) \<and>
   foo_answer = ''Sure, here you go: '' @ foo_json \<and>
   parse_listed [(foo_json, foo_object)] foo_json = Inr (JObject [(''foo'', JNumber (Num 1))]) \<and>
   fst (groq_processQuery groq_sdk example_env (parse_listed [(foo_json, foo_object)])
          (answering_completion foo_answer) question [] False groq_fresh)
     = Inr (JObject [(''foo'', JNumber (Num 1))]) \<and>
   answering_executor report_data (JObject [(''foo'', JNumber (Num 1))]) fresh_state
     = (Inr report_data, fresh_state) \<and>
   (\<exists>a2.
      chat_handler example_env (stringify_listed [])
        (groq_processQuery groq_sdk example_env (parse_listed [(foo_json, foo_object)])
           (answering_completion foo_answer))
        (answering_executor report_data) question_body (groq_fresh, fresh_state)
      = (\<lparr> status = 200,
           body = JObject [(''type'', JString ''analytics''),
                           (''content'', JString foo_answer),
                           (''rawData'', report_data),
                           (''query'', JObject [(''foo'', JNumber (Num 1))])] \<rparr>,
         [Call_processQuery question [] False,
          Call_queryGA4 (JObject [(''foo'', JNumber (Num 1))]),
          Call_processQuery
            (format_prompt (stringify_listed []) question (JObject [(''foo'', JNumber (Num 1))])
               report_data) [] True],
         a2, fresh_state))"
proof -
  let ?parse = "parse_listed [(foo_json, foo_object)]"
  let ?create = "answering_completion foo_answer"
  let ?pq = "groq_processQuery groq_sdk example_env ?parse ?create"
  let ?prompt = "format_prompt (stringify_listed []) question foo_object report_data"
  obtain response where
    r: "?create example_groq (groq_request_of example_env question [] False) = Inr response"
    and t: "groq_text response = foo_answer"
    using answering_completion_text by blast
  have whole: "foo_answer = ''Sure, here you go: '' @ foo_json"
    by (simp add: foo_answer_def)
  have braces: "CHR ''{'' # butlast (tl foo_json) @ [CHR ''}''] = foo_json"
    by (simp add: foo_json_def)
  then have m: "groq_text response
                  = ''Sure, here you go: '' @ CHR ''{'' # butlast (tl foo_json) @ CHR ''}'' # []"
    by (simp add: t whole)
  have p: "?parse (CHR ''{'' # butlast (tl foo_json) @ [CHR ''}'']) = Inr foo_object"
    by (simp add: braces parse_listed_def)
  have p': "?parse foo_json = Inr foo_object"
    by (simp add: parse_listed_def)
  have msg: "body_message question_body = JString question" "question \<noteq> []"
    "length question \<le> 2000" "history_of question_body = []"
    by (simp_all add: question_body_def question_def history_of_def)
  have shape: "\<not> nullish foo_object" "\<not> truthy (get_property foo_object ''error'')"
    "get_property foo_object ''type'' \<noteq> JString ''text''"
    by (simp_all add: foo_object_def nullish_def)
  have executed: "answering_executor report_data foo_object fresh_state
                    = (Inr report_data, fresh_state)"
    by (simp add: answering_executor_def)
  have after: "groq_handle (snd (?pq question [] False groq_fresh)) = Some example_groq"
    by (simp add: groq_processQuery_run [OF example_groq_ready] groq_ready_def)
  have formatted: "fst (?pq ?prompt [] True (snd (?pq question [] False groq_fresh)))
                     = Inr (text_result foo_answer)"
    by (simp add: groq_processQuery_run [OF groq_getClient_again [OF after]]
        answering_completion_def groq_text_def)
  obtain a2 where
    f: "?pq ?prompt [] True (snd (?pq question [] False groq_fresh)) = (Inr (text_result foo_answer), a2)"
    using formatted by (cases "?pq ?prompt [] True (snd (?pq question [] False groq_fresh))") simp
  have content: "\<not> nullish (text_result foo_answer)"
    "truthy (get_property (text_result foo_answer) ''content'')"
    "get_property (text_result foo_answer) ''content'' = JString foo_answer"
    by (simp_all add: text_result_def nullish_def foo_answer_def)
  from processQuery_returns_parsed_unvalidated
         [where new_Groq = groq_sdk and create = ?create and JSON_parse = ?parse
            and parsed = foo_object and b = question_body and g = fresh_state
            and JSON_stringify = "stringify_listed []"
            and run_query = "answering_executor report_data",
          OF example_groq_ready r m _ _ p]
  have first: "fst (?pq question [] False groq_fresh) = Inr foo_object"
    and handled: "chat_handler example_env (stringify_listed []) ?pq
             (answering_executor report_data) question_body (groq_fresh, fresh_state)
           = (json_response
                (JObject [(''type'', JString ''analytics''), (''content'', JString foo_answer),
                          (''rawData'', report_data), (''query'', foo_object)]),
              [Call_processQuery question [] False, Call_queryGA4 foo_object,
               Call_processQuery ?prompt [] True],
              a2, fresh_state)"
    using msg shape executed f content by simp_all
  from first handled example_groq_ready whole p' executed show ?thesis
    by (simp add: foo_object_def json_response_def)
qed

end
